theory Spec2Isabelle
  imports Complex_Main
begin

section \<open>Values, rows and arrays\<close>

text \<open>
  The calculators of \<^verbatim>\<open>scottish_budget_data/calculators.py\<close> map numeric arrays to lists
  of metric rows. Arithmetic is modelled over the reals: rounding of the 64-bit floats is
  not part of the model. What is part of it are the special values a numpy division by
  zero produces (a warning, never an exception): an unguarded division of numpy values
  yields \<open>NaN\<close> or an infinity, and these propagate through later arithmetic. A
  division of Python floats raises \<^verbatim>\<open>ZeroDivisionError\<close> on a zero divisor instead. The
  sign of a zero is not modelled.
\<close>

datatype float = Fin real | PInf | NInf | NaN

text \<open>A metric row is a Python dict; keys keep their insertion order.\<close>

datatype pyval = PyStr string | PyInt int | PyFloat float | PyBool bool

type_synonym row = "(string \<times> pyval) list"

text \<open>Python's \<^verbatim>\<open>str\<close> on an integer: decimal digits, a minus sign when negative.\<close>

fun str_nat :: "nat \<Rightarrow> string" where
  "str_nat n = (if n < 10 then [''0123456789'' ! n]
                else str_nat (n div 10) @ [''0123456789'' ! (n mod 10)])"

declare str_nat.simps [simp del]

definition str :: "int \<Rightarrow> string" where
  "str i = (if i < 0 then CHR ''-'' # str_nat (nat (- i)) else str_nat (nat i))"

text \<open>Python's \<^verbatim>\<open>int\<close> on a float, numpy's \<^verbatim>\<open>astype(int)\<close>: truncation toward zero.\<close>

definition py_int :: "real \<Rightarrow> int" where
  "py_int x = (if x \<ge> 0 then \<lfloor>x\<rfloor> else \<lceil>x\<rceil>)"

subsection \<open>Exceptions\<close>

datatype error =
  ValueError | IndexError | KeyError | ZeroDivisionError | FileNotFoundError | OtherError string

text \<open>Sequencing of steps that may raise: the first exception ends the computation.\<close>

definition ebind :: "error + 'a \<Rightarrow> ('a \<Rightarrow> error + 'b) \<Rightarrow> error + 'b" where
  "ebind m f = (case m of Inl e \<Rightarrow> Inl e | Inr x \<Rightarrow> f x)"

subsection \<open>numpy arrays\<close>

text \<open>
  A one-dimensional array is a list. An elementwise binary operation follows numpy's
  broadcasting rule: equal lengths, or one operand of length one; any other pair of shapes
  raises \<^verbatim>\<open>ValueError\<close>.
\<close>

definition np_binop :: "('a \<Rightarrow> 'b \<Rightarrow> 'c) \<Rightarrow> 'a list \<Rightarrow> 'b list \<Rightarrow> error + 'c list" where
  "np_binop f xs ys =
     (if length xs = length ys then Inr (map2 f xs ys)
      else if length xs = 1 then Inr (map (f (hd xs)) ys)
      else if length ys = 1 then Inr (map (\<lambda>x. f x (hd ys)) xs)
      else Inl ValueError)"

text \<open>
  Boolean-mask indexing \<^verbatim>\<open>xs[mask]\<close>: the mask must have the array's length, otherwise
  numpy raises \<^verbatim>\<open>IndexError\<close>.
\<close>

definition np_mask :: "'a list \<Rightarrow> bool list \<Rightarrow> error + 'a list" where
  "np_mask xs msk =
     (if length xs = length msk then Inr (map fst (filter snd (zip xs msk)))
      else Inl IndexError)"

text \<open>Indexing \<^verbatim>\<open>xs[i]\<close> at a non-negative index.\<close>

definition np_get :: "'a list \<Rightarrow> nat \<Rightarrow> error + 'a" where
  "np_get xs i = (if i < length xs then Inr (xs ! i) else Inl IndexError)"

subsection \<open>Float arithmetic with the special values\<close>

fun fsub :: "float \<Rightarrow> float \<Rightarrow> float" where
  "fsub (Fin a) (Fin b) = Fin (a - b)"
| "fsub NaN _ = NaN"
| "fsub _ NaN = NaN"
| "fsub PInf PInf = NaN"
| "fsub NInf NInf = NaN"
| "fsub PInf _ = PInf"
| "fsub NInf _ = NInf"
| "fsub (Fin a) PInf = NInf"
| "fsub (Fin a) NInf = PInf"

fun fmul :: "float \<Rightarrow> float \<Rightarrow> float" where
  "fmul (Fin a) (Fin b) = Fin (a * b)"
| "fmul NaN _ = NaN"
| "fmul _ NaN = NaN"
| "fmul PInf (Fin b) = (if b > 0 then PInf else if b < 0 then NInf else NaN)"
| "fmul NInf (Fin b) = (if b > 0 then NInf else if b < 0 then PInf else NaN)"
| "fmul (Fin a) PInf = (if a > 0 then PInf else if a < 0 then NInf else NaN)"
| "fmul (Fin a) NInf = (if a > 0 then NInf else if a < 0 then PInf else NaN)"
| "fmul PInf PInf = PInf"
| "fmul NInf NInf = PInf"
| "fmul PInf NInf = NInf"
| "fmul NInf PInf = NInf"

text \<open>
  Division: a zero divisor gives \<open>NaN\<close> for a zero dividend and an infinity of the
  dividend's sign otherwise (the zero taken as positive).
\<close>

fun fdiv :: "float \<Rightarrow> float \<Rightarrow> float" where
  "fdiv (Fin a) (Fin b) =
     (if b \<noteq> 0 then Fin (a / b) else if a = 0 then NaN else if a > 0 then PInf else NInf)"
| "fdiv NaN _ = NaN"
| "fdiv _ NaN = NaN"
| "fdiv (Fin a) _ = Fin 0"
| "fdiv PInf (Fin b) = (if b \<ge> 0 then PInf else NInf)"
| "fdiv NInf (Fin b) = (if b \<ge> 0 then NInf else PInf)"
| "fdiv PInf PInf = NaN"
| "fdiv PInf NInf = NaN"
| "fdiv NInf PInf = NaN"
| "fdiv NInf NInf = NaN"

text \<open>The comparison \<^verbatim>\<open>x > 0\<close>: false for \<open>NaN\<close>.\<close>

fun fgt0 :: "float \<Rightarrow> bool" where
  "fgt0 (Fin a) = (a > 0)"
| "fgt0 PInf = True"
| "fgt0 _ = False"

text \<open>
  The division \<^verbatim>\<open>a / b\<close> of two Python floats: a zero divisor raises, whatever the
  dividend; the special values divide as above.
\<close>

definition py_truediv :: "float \<Rightarrow> float \<Rightarrow> error + float" where
  "py_truediv a b = (if b = Fin 0 then Inl ZeroDivisionError else Inr (fdiv a b))"

subsection \<open>The simulation adapter and the series library\<close>

text \<open>
  A microsimulation is its method \<^verbatim>\<open>calculate(variable, period, map_to)\<close>; the result is a
  weighted series of the external library, a type \<open>'ms\<close> of which the calculators use
  only the operations below. They are parameters of the model: \<^verbatim>\<open>.values\<close> (read as a
  numeric or as a boolean array, by the variable's type), the difference of two series,
  \<^verbatim>\<open>.sum()\<close>, and the Gini coefficient \<^verbatim>\<open>MicroSeries(values, weights=w).gini()\<close>, which
  may raise and whose result is a Python float.
\<close>

type_synonym 'ms microsimulation = "string \<Rightarrow> int \<Rightarrow> string option \<Rightarrow> 'ms"

record 'ms microdf =
  ms_values :: "'ms \<Rightarrow> real list"
  ms_bool_values :: "'ms \<Rightarrow> bool list"
  ms_sub :: "'ms \<Rightarrow> 'ms \<Rightarrow> 'ms"
  ms_sum :: "'ms \<Rightarrow> real"
  ms_gini :: "real list \<Rightarrow> real list \<Rightarrow> error + float"

section \<open>The decile table\<close>

text \<open>
  One row of the intermediate \<^verbatim>\<open>decile_df\<close> DataFrame: one unit (household), with the
  five columns the source builds it from (each field is the column of that name).
\<close>

record decile_row =
  df_household_income_decile :: real
  df_baseline_income :: real
  df_reform_income :: real
  df_income_change :: real
  df_household_weight :: real

type_synonym decile_df = "decile_row list"

text \<open>\<^verbatim>\<open>decile_df[decile_df["household_income_decile"] == decile_num]\<close>\<close>

definition decile_data :: "decile_df \<Rightarrow> int \<Rightarrow> decile_df" where
  "decile_data df decile_num =
     filter (\<lambda>r. df_household_income_decile r = real_of_int decile_num) df"

text \<open>\<^verbatim>\<open>(df["income_change"] * df["household_weight"]).sum()\<close> and its siblings.\<close>

definition df_weighted_change :: "decile_df \<Rightarrow> real" where
  "df_weighted_change df = sum_list (map (\<lambda>r. df_income_change r * df_household_weight r) df)"

definition df_weighted_baseline :: "decile_df \<Rightarrow> real" where
  "df_weighted_baseline df = sum_list (map (\<lambda>r. df_baseline_income r * df_household_weight r) df)"

definition df_total_hh :: "decile_df \<Rightarrow> real" where
  "df_total_hh df = sum_list (map df_household_weight df)"

section \<open>DistributionalImpactCalculator\<close>

definition decile_names :: "string list" where
  "decile_names =
     [''1st'', ''2nd'', ''3rd'', ''4th'', ''5th'', ''6th'', ''7th'', ''8th'', ''9th'', ''10th'']"

text \<open>
  The guarded quotient of \<^verbatim>\<open>calculate_from_dataframe\<close>: the else branch is the Python
  integer \<^verbatim>\<open>0\<close>.
\<close>

definition df_rel_change :: "decile_df \<Rightarrow> pyval" where
  "df_rel_change dd =
     (if df_weighted_baseline dd > 0
      then PyFloat (Fin ((df_weighted_change dd / df_weighted_baseline dd) * 100))
      else PyInt 0)"

definition distributional_row :: "string \<Rightarrow> string \<Rightarrow> int \<Rightarrow> int \<Rightarrow> decile_df \<Rightarrow> row" where
  "distributional_row reform_id reform_name year decile_num dd =
     [(''reform_id'', PyStr reform_id),
      (''reform_name'', PyStr reform_name),
      (''year'', PyInt year),
      (''decile'', PyStr (decile_names ! nat (decile_num - 1))),
      (''value'', df_rel_change dd)]"

text \<open>The loop \<^verbatim>\<open>for decile_num in range(1, 11)\<close>, appending to \<^verbatim>\<open>results\<close>.\<close>

fun distributional_loop ::
  "string \<Rightarrow> string \<Rightarrow> int \<Rightarrow> decile_df \<Rightarrow> int list \<Rightarrow> row list \<Rightarrow> row list" where
  "distributional_loop reform_id reform_name year df [] results = results"
| "distributional_loop reform_id reform_name year df (decile_num # rest) results =
     (let dd = decile_data df decile_num
      in distributional_loop reform_id reform_name year df rest
           (if length dd > 0
            then results @ [distributional_row reform_id reform_name year decile_num dd]
            else results))"

definition DistributionalImpactCalculator_calculate_from_dataframe ::
  "string \<Rightarrow> string \<Rightarrow> int \<Rightarrow> decile_df \<Rightarrow> row list" where
  "DistributionalImpactCalculator_calculate_from_dataframe reform_id reform_name year df =
     distributional_loop reform_id reform_name year df [1, 2, 3, 4, 5, 6, 7, 8, 9, 10] []"

text \<open>
  \<^verbatim>\<open>calculate\<close> builds the table from the simulations and removes the units without a
  decile. \<^verbatim>\<open>pd.DataFrame\<close> raises \<^verbatim>\<open>ValueError\<close> when its columns differ in length.
\<close>

definition build_decile_df ::
  "real list \<Rightarrow> real list \<Rightarrow> real list \<Rightarrow> real list \<Rightarrow> real list \<Rightarrow> error + decile_df" where
  "build_decile_df decile baseline reform change weight =
     (if length baseline = length decile \<and> length reform = length decile
         \<and> length change = length decile \<and> length weight = length decile
      then Inr (map (\<lambda>i. \<lparr>df_household_income_decile = decile ! i,
                           df_baseline_income = baseline ! i,
                           df_reform_income = reform ! i,
                           df_income_change = change ! i,
                           df_household_weight = weight ! i\<rparr>) [0..<length decile])
      else Inl ValueError)"

definition DistributionalImpactCalculator_calculate ::
  "'ms microdf \<Rightarrow> 'ms microsimulation \<Rightarrow> 'ms microsimulation \<Rightarrow> string \<Rightarrow> string \<Rightarrow> int
     \<Rightarrow> error + (row list \<times> decile_df)" where
  "DistributionalImpactCalculator_calculate L baseline reformed reform_id reform_name year =
     (let baseline_income = baseline ''household_net_income'' year (Some ''household'');
          reform_income = reformed ''household_net_income'' year (Some ''household'');
          household_decile = baseline ''household_income_decile'' year (Some ''household'');
          household_weight = baseline ''household_weight'' year (Some ''household'')
      in ebind (build_decile_df
                  (ms_values L household_decile)
                  (ms_values L baseline_income)
                  (ms_values L reform_income)
                  (ms_values L (ms_sub L reform_income baseline_income))
                  (ms_values L household_weight))
           (\<lambda>decile_df0.
              let decile_df = filter (\<lambda>r. df_household_income_decile r \<ge> 1) decile_df0
              in Inr (DistributionalImpactCalculator_calculate_from_dataframe
                        reform_id reform_name year decile_df,
                      decile_df)))"

section \<open>WinnersLosersCalculator\<close>

definition df_avg_change :: "decile_df \<Rightarrow> pyval" where
  "df_avg_change dd =
     (if df_total_hh dd > 0 then PyFloat (Fin (df_weighted_change dd / df_total_hh dd)) else PyInt 0)"

definition winners_row :: "string \<Rightarrow> string \<Rightarrow> int \<Rightarrow> string \<Rightarrow> pyval \<Rightarrow> row" where
  "winners_row reform_id reform_name year label v =
     [(''reform_id'', PyStr reform_id),
      (''reform_name'', PyStr reform_name),
      (''year'', PyInt year),
      (''decile'', PyStr label),
      (''avg_change'', v)]"

fun winners_loop ::
  "string \<Rightarrow> string \<Rightarrow> int \<Rightarrow> decile_df \<Rightarrow> int list \<Rightarrow> row list \<Rightarrow> row list" where
  "winners_loop reform_id reform_name year df [] results = results"
| "winners_loop reform_id reform_name year df (decile_num # rest) results =
     (let dd = decile_data df decile_num
      in winners_loop reform_id reform_name year df rest
           (if length dd > 0
            then results @ [winners_row reform_id reform_name year (str decile_num) (df_avg_change dd)]
            else results))"

definition WinnersLosersCalculator_calculate_from_dataframe ::
  "string \<Rightarrow> string \<Rightarrow> int \<Rightarrow> decile_df \<Rightarrow> row list" where
  "WinnersLosersCalculator_calculate_from_dataframe reform_id reform_name year df =
     winners_loop reform_id reform_name year df [1, 2, 3, 4, 5, 6, 7, 8, 9, 10] []
       @ [winners_row reform_id reform_name year ''all'' (df_avg_change df)]"

definition WinnersLosersCalculator_calculate ::
  "decile_df \<Rightarrow> string \<Rightarrow> string \<Rightarrow> int \<Rightarrow> row list" where
  "WinnersLosersCalculator_calculate df reform_id reform_name year =
     WinnersLosersCalculator_calculate_from_dataframe reform_id reform_name year df"

section \<open>BudgetaryImpactCalculator\<close>

definition STUDENT_LOAN_REFORMS :: "string list" where
  "STUDENT_LOAN_REFORMS = [''freeze_student_loan_thresholds'']"

definition budgetary_row :: "string \<Rightarrow> string \<Rightarrow> int \<Rightarrow> real \<Rightarrow> row" where
  "budgetary_row reform_id reform_name year impact =
     [(''reform_id'', PyStr reform_id),
      (''reform_name'', PyStr reform_name),
      (''year'', PyInt year),
      (''value'', PyFloat (Fin impact))]"

text \<open>The loop \<^verbatim>\<open>for year in self.years\<close>.\<close>

fun budgetary_loop ::
  "'ms microdf \<Rightarrow> 'ms microsimulation \<Rightarrow> 'ms microsimulation \<Rightarrow> string \<Rightarrow> string
     \<Rightarrow> int list \<Rightarrow> row list \<Rightarrow> row list" where
  "budgetary_loop L baseline reformed reform_id reform_name [] results = results"
| "budgetary_loop L baseline reformed reform_id reform_name (year # rest) results =
     (let impact =
        (if reform_id \<in> set STUDENT_LOAN_REFORMS
         then (let baseline_repayments = baseline ''student_loan_repayment'' year None;
                   reformed_repayments = reformed ''student_loan_repayment'' year None
               in ms_sum L (ms_sub L reformed_repayments baseline_repayments) / 1000000000)
         else (let baseline_balance = baseline ''gov_balance'' year None;
                   reformed_balance = reformed ''gov_balance'' year None
               in ms_sum L (ms_sub L reformed_balance baseline_balance) / 1000000000))
      in budgetary_loop L baseline reformed reform_id reform_name rest
           (results @ [budgetary_row reform_id reform_name year impact]))"

definition BudgetaryImpactCalculator_calculate ::
  "int list \<Rightarrow> 'ms microdf \<Rightarrow> 'ms microsimulation \<Rightarrow> 'ms microsimulation \<Rightarrow> string \<Rightarrow> string
     \<Rightarrow> row list" where
  "BudgetaryImpactCalculator_calculate years L baseline reformed reform_id reform_name =
     budgetary_loop L baseline reformed reform_id reform_name years []"

section \<open>MetricsCalculator\<close>

text \<open>The three blocks of \<^verbatim>\<open>calculate\<close>, in the order of the source.\<close>

definition calc_percent_affected ::
  "'ms microdf \<Rightarrow> 'ms microsimulation \<Rightarrow> 'ms microsimulation \<Rightarrow> int \<Rightarrow> error + pyval" where
  "calc_percent_affected L baseline reformed year =
     (let baseline_income = baseline ''household_net_income'' year (Some ''household'');
          reform_income = reformed ''household_net_income'' year (Some ''household'');
          household_decile = baseline ''household_income_decile'' year (Some ''household'');
          household_count = baseline ''household_count_people'' year (Some ''household'');
          household_weight = baseline ''household_weight'' year (Some ''household'');
          income_change = ms_sub L reform_income baseline_income;
          capped_baseline = map (\<lambda>b. max b 1) (ms_values L baseline_income)
      in ebind (np_binop (/) (ms_values L income_change) capped_baseline)
           (\<lambda>income_change_pct.
         ebind (np_binop (*) (ms_values L household_count) (ms_values L household_weight))
           (\<lambda>weighted_people.
         let income_changed = map (\<lambda>p. \<bar>p\<bar> > 0.0001) income_change_pct;
             valid_deciles = map (\<lambda>d. d \<ge> 1) (ms_values L household_decile)
         in ebind (np_binop (\<and>) income_changed valid_deciles)
           (\<lambda>both.
         ebind (np_mask weighted_people both)
           (\<lambda>affected.
         ebind (np_mask weighted_people valid_deciles)
           (\<lambda>valid.
         let people_affected = sum_list affected;
             total_people = sum_list valid
         in Inr (if total_people > 0
                 then PyFloat (Fin ((people_affected / total_people) * 100))
                 else PyInt 0)))))))"

text \<open>
  The two Gini coefficients are Python floats, so the relative change raises
  \<^verbatim>\<open>ZeroDivisionError\<close> when the baseline Gini coefficient is zero.
\<close>

definition calc_gini_change ::
  "'ms microdf \<Rightarrow> 'ms microsimulation \<Rightarrow> 'ms microsimulation \<Rightarrow> int \<Rightarrow> error + pyval" where
  "calc_gini_change L baseline reformed year =
     (let baseline_equiv = baseline ''equiv_household_net_income'' year (Some ''household'');
          reformed_equiv = reformed ''equiv_household_net_income'' year (Some ''household'');
          hh_count = baseline ''household_count_people'' year (Some ''household'');
          hh_weight = baseline ''household_weight'' year (Some ''household'');
          baseline_equiv_values = map (\<lambda>x. max x 0) (ms_values L baseline_equiv);
          reformed_equiv_values = map (\<lambda>x. max x 0) (ms_values L reformed_equiv)
      in ebind (np_binop (*) (ms_values L hh_weight) (ms_values L hh_count))
           (\<lambda>adjusted_weights.
         ebind (ms_gini L baseline_equiv_values adjusted_weights)
           (\<lambda>baseline_gini.
         ebind (ms_gini L reformed_equiv_values adjusted_weights)
           (\<lambda>reformed_gini.
         ebind (py_truediv (fsub reformed_gini baseline_gini) baseline_gini)
           (\<lambda>relative_change.
         Inr (PyFloat relative_change))))))"

definition calc_poverty_change ::
  "'ms microdf \<Rightarrow> 'ms microsimulation \<Rightarrow> 'ms microsimulation \<Rightarrow> int \<Rightarrow> error + (pyval \<times> pyval)" where
  "calc_poverty_change L baseline reformed year =
     (let baseline_poverty = ms_bool_values L (baseline ''in_poverty_bhc'' year (Some ''person''));
          reformed_poverty = ms_bool_values L (reformed ''in_poverty_bhc'' year (Some ''person''));
          person_weight = ms_values L (baseline ''person_weight'' year (Some ''person''))
      in ebind (np_mask person_weight baseline_poverty)
           (\<lambda>baseline_poor.
         let baseline_rate =
               fmul (fdiv (Fin (sum_list baseline_poor)) (Fin (sum_list person_weight))) (Fin 100)
         in ebind (np_mask person_weight reformed_poverty)
           (\<lambda>reformed_poor.
         let reformed_rate =
               fmul (fdiv (Fin (sum_list reformed_poor)) (Fin (sum_list person_weight))) (Fin 100);
             poverty_pp = fsub reformed_rate baseline_rate;
             poverty_pct = (if fgt0 baseline_rate
                            then PyFloat (fmul (fdiv poverty_pp baseline_rate) (Fin 100))
                            else PyInt 0)
         in Inr (PyFloat poverty_pp, poverty_pct))))"

definition MetricsCalculator_calculate ::
  "'ms microdf \<Rightarrow> 'ms microsimulation \<Rightarrow> 'ms microsimulation \<Rightarrow> string \<Rightarrow> string \<Rightarrow> int
     \<Rightarrow> error + row list" where
  "MetricsCalculator_calculate L baseline reformed reform_id reform_name year =
     ebind (calc_percent_affected L baseline reformed year)
       (\<lambda>percent_affected.
     ebind (calc_gini_change L baseline reformed year)
       (\<lambda>gini_change.
     ebind (calc_poverty_change L baseline reformed year)
       (\<lambda>(poverty_pp, poverty_pct).
     Inr [[(''reform_id'', PyStr reform_id),
           (''reform_name'', PyStr reform_name),
           (''year'', PyInt year),
           (''people_affected'', percent_affected),
           (''gini_change'', gini_change),
           (''poverty_change_pp'', poverty_pp),
           (''poverty_change_pct'', poverty_pct)]])))"

section \<open>HouseholdScatterCalculator\<close>

text \<open>The fields of the calculator that \<^verbatim>\<open>calculate_from_arrays\<close> reads.\<close>

record scatter_config =
  max_income :: int
  min_income :: int

definition scatter_row ::
  "string \<Rightarrow> string \<Rightarrow> int \<Rightarrow> real \<Rightarrow> real \<Rightarrow> real \<Rightarrow> row" where
  "scatter_row reform_id reform_name year b c w =
     [(''reform_id'', PyStr reform_id),
      (''reform_name'', PyStr reform_name),
      (''year'', PyInt year),
      (''baseline_income'', PyFloat (Fin b)),
      (''income_change'', PyFloat (Fin c)),
      (''household_weight'', PyFloat (Fin w))]"

text \<open>
  The loop \<^verbatim>\<open>for i in range(len(baseline_incomes))\<close>. Reading \<^verbatim>\<open>income_changes[i]\<close>,
  \<^verbatim>\<open>weights[i]\<close> or \<^verbatim>\<open>household_ids[i]\<close> past the end of a shorter array raises
  \<^verbatim>\<open>IndexError\<close>.
\<close>

fun scatter_loop ::
  "string \<Rightarrow> string \<Rightarrow> int \<Rightarrow> bool list \<Rightarrow> real list \<Rightarrow> real list \<Rightarrow> real list
     \<Rightarrow> real list option \<Rightarrow> nat list \<Rightarrow> row list \<Rightarrow> error + row list" where
  "scatter_loop reform_id reform_name year msk baseline_incomes income_changes weights
     household_ids [] results = Inr results"
| "scatter_loop reform_id reform_name year msk baseline_incomes income_changes weights
     household_ids (i # rest) results =
     (if msk ! i
      then ebind (np_get baseline_incomes i) (\<lambda>b.
           ebind (np_get income_changes i) (\<lambda>c.
           ebind (np_get weights i) (\<lambda>w.
           let row = scatter_row reform_id reform_name year b c w
           in (case household_ids of
                 None \<Rightarrow>
                   scatter_loop reform_id reform_name year msk baseline_incomes income_changes
                     weights household_ids rest (results @ [row])
               | Some ids \<Rightarrow>
                   ebind (np_get ids i) (\<lambda>h.
                     scatter_loop reform_id reform_name year msk baseline_incomes income_changes
                       weights household_ids rest
                       (results @ [row @ [(''household_id'', PyInt (py_int h))]]))))))
      else scatter_loop reform_id reform_name year msk baseline_incomes income_changes weights
             household_ids rest results)"

definition HouseholdScatterCalculator_calculate_from_arrays ::
  "scatter_config \<Rightarrow> string \<Rightarrow> string \<Rightarrow> int \<Rightarrow> real list \<Rightarrow> real list \<Rightarrow> real list
     \<Rightarrow> real list option \<Rightarrow> error + row list" where
  "HouseholdScatterCalculator_calculate_from_arrays self reform_id reform_name year
     baseline_incomes income_changes weights household_ids =
     (let msk = map (\<lambda>b. b \<ge> real_of_int (min_income self) \<and> b \<le> real_of_int (max_income self))
                  baseline_incomes
      in scatter_loop reform_id reform_name year msk baseline_incomes income_changes weights
           household_ids [0..<length baseline_incomes] [])"

section \<open>DemographicConstituencyCalculator\<close>

text \<open>One row of the constituency reference table (columns \<^verbatim>\<open>code\<close> and \<^verbatim>\<open>name\<close>).\<close>

record constituency =
  code :: string
  name :: string








section \<open>ReformProcessor\<close>

text \<open>
  \<^verbatim>\<open>ReformProcessor.process\<close> of \<^verbatim>\<open>pipeline.py\<close> calls every calculator for every year. The
  processor holds the reform, the configured years and the eight calculators; here each
  calculator is its \<^verbatim>\<open>calculate\<close> method, which may raise. The reform is read through its
  \<^verbatim>\<open>id\<close>, its \<^verbatim>\<open>name\<close> and the results of \<^verbatim>\<open>to_scenario()\<close> and \<^verbatim>\<open>to_baseline_scenario()\<close>.
\<close>

record 'scen reform =
  r_id :: string
  r_name :: string
  r_to_scenario :: 'scen
  r_to_baseline_scenario :: "'scen option"

record ('ms, 'scen) reform_processor =
  reform :: "'scen reform"
  config_years :: "int list"
  budgetary_calc ::
    "'ms microsimulation \<Rightarrow> 'ms microsimulation \<Rightarrow> string \<Rightarrow> string \<Rightarrow> error + row list"
  distributional_calc ::
    "'ms microsimulation \<Rightarrow> 'ms microsimulation \<Rightarrow> string \<Rightarrow> string \<Rightarrow> int
       \<Rightarrow> error + (row list \<times> decile_df)"
  winners_losers_calc :: "decile_df \<Rightarrow> string \<Rightarrow> string \<Rightarrow> int \<Rightarrow> error + row list"
  metrics_calc ::
    "'ms microsimulation \<Rightarrow> 'ms microsimulation \<Rightarrow> string \<Rightarrow> string \<Rightarrow> int \<Rightarrow> error + row list"
  income_curve_calc :: "'scen option \<Rightarrow> 'scen \<Rightarrow> string \<Rightarrow> string \<Rightarrow> int \<Rightarrow> error + row list"
  household_scatter_calc ::
    "'ms microsimulation \<Rightarrow> 'ms microsimulation \<Rightarrow> string \<Rightarrow> string \<Rightarrow> int \<Rightarrow> error + row list"
  constituency_calc ::
    "'ms microsimulation \<Rightarrow> 'ms microsimulation \<Rightarrow> string \<Rightarrow> int \<Rightarrow> real list list
       \<Rightarrow> constituency list \<Rightarrow> error + row list"
  demographic_calc ::
    "'ms microsimulation \<Rightarrow> 'ms microsimulation \<Rightarrow> string \<Rightarrow> int \<Rightarrow> real list list
       \<Rightarrow> constituency list \<Rightarrow> error + row list"

text \<open>
  What \<^verbatim>\<open>_calculate_constituency\<close> sees of the file system: whether the two files exist, and
  what reading them gives (\<^verbatim>\<open>h5py.File(weights_path)["2025"][...]\<close> and \<^verbatim>\<open>pd.read_csv\<close>).
\<close>

record file_system =
  weights_path_exists :: bool
  constituencies_path_exists :: bool
  read_weights :: "error + real list list"
  read_constituencies :: "error + constituency list"

definition calculate_constituency ::
  "('ms, 'scen) reform_processor \<Rightarrow> file_system \<Rightarrow> 'ms microsimulation \<Rightarrow> 'ms microsimulation
     \<Rightarrow> string \<Rightarrow> int \<Rightarrow> error + (row list \<times> row list)" where
  "calculate_constituency self fs baseline reformed reform_id year =
     (if \<not> weights_path_exists fs \<or> \<not> constituencies_path_exists fs
      then Inl FileNotFoundError
      else ebind (read_weights fs) (\<lambda>weights.
           ebind (read_constituencies fs) (\<lambda>constituency_df.
           ebind (constituency_calc self baseline reformed reform_id year weights constituency_df)
             (\<lambda>constituency.
           ebind (demographic_calc self baseline reformed reform_id year weights constituency_df)
             (\<lambda>demographic.
           Inr (constituency, demographic))))))"

text \<open>The lists \<^verbatim>\<open>all_...\<close> that the loop over the years extends.\<close>

record accumulators =
  all_distributional :: "row list"
  all_winners_losers :: "row list"
  all_metrics :: "row list"
  all_income_curve :: "row list"
  all_household_scatter :: "row list"
  all_constituency :: "row list"
  all_demographic :: "row list"

text \<open>
  The loop \<^verbatim>\<open>for year in self.config.years\<close>. The \<^verbatim>\<open>try\<close> around the constituency step
  catches \<^verbatim>\<open>FileNotFoundError\<close> only; any other exception, and any exception of a step
  outside the \<^verbatim>\<open>try\<close>, ends the run.
\<close>

fun process_years ::
  "('ms, 'scen) reform_processor \<Rightarrow> file_system \<Rightarrow> 'ms microsimulation \<Rightarrow> 'ms microsimulation
     \<Rightarrow> string \<Rightarrow> string \<Rightarrow> 'scen \<Rightarrow> int list \<Rightarrow> accumulators \<Rightarrow> error + accumulators" where
  "process_years self fs baseline reformed reform_id reform_name scenario [] acc = Inr acc"
| "process_years self fs baseline reformed reform_id reform_name scenario (year # rest) acc =
     ebind (distributional_calc self baseline reformed reform_id reform_name year)
       (\<lambda>(distributional, decile_df).
     ebind (winners_losers_calc self decile_df reform_id reform_name year)
       (\<lambda>winners_losers.
     ebind (metrics_calc self baseline reformed reform_id reform_name year)
       (\<lambda>metrics.
     let baseline_scenario = r_to_baseline_scenario (reform self)
     in ebind (income_curve_calc self baseline_scenario scenario reform_id reform_name year)
       (\<lambda>income_curve.
     ebind (household_scatter_calc self baseline reformed reform_id reform_name year)
       (\<lambda>household_scatter.
     let acc1 = acc\<lparr>all_distributional := all_distributional acc @ distributional,
                    all_winners_losers := all_winners_losers acc @ winners_losers,
                    all_metrics := all_metrics acc @ metrics,
                    all_income_curve := all_income_curve acc @ income_curve,
                    all_household_scatter := all_household_scatter acc @ household_scatter\<rparr>
     in (case calculate_constituency self fs baseline reformed reform_id year of
           Inr (constituency, demographic) \<Rightarrow>
             process_years self fs baseline reformed reform_id reform_name scenario rest
               (acc1\<lparr>all_constituency := all_constituency acc1 @ constituency,
                     all_demographic := all_demographic acc1 @ demographic\<rparr>)
         | Inl FileNotFoundError \<Rightarrow>
             process_years self fs baseline reformed reform_id reform_name scenario rest acc1
         | Inl e \<Rightarrow> Inl e))))))"

record reform_result =
  rr_reform_id :: string
  rr_reform_name :: string
  rr_budgetary_impact :: "row list"
  rr_distributional_impact :: "row list"
  rr_winners_losers :: "row list"
  rr_metrics :: "row list"
  rr_income_curve :: "row list"
  rr_household_scatter :: "row list"
  rr_constituency :: "row list"
  rr_demographic_constituency :: "row list"

definition ReformProcessor_process ::
  "('ms, 'scen) reform_processor \<Rightarrow> file_system \<Rightarrow> 'ms microsimulation \<Rightarrow> 'ms microsimulation
     \<Rightarrow> error + reform_result" where
  "ReformProcessor_process self fs baseline reformed =
     (let reform_id = r_id (reform self);
          reform_name = r_name (reform self)
      in ebind (budgetary_calc self baseline reformed reform_id reform_name)
           (\<lambda>budgetary.
         let scenario = r_to_scenario (reform self)
         in ebind (process_years self fs baseline reformed reform_id reform_name scenario
                     (config_years self)
                     \<lparr>all_distributional = [], all_winners_losers = [], all_metrics = [],
                      all_income_curve = [], all_household_scatter = [],
                      all_constituency = [], all_demographic = []\<rparr>)
           (\<lambda>acc.
         Inr \<lparr>rr_reform_id = reform_id,
              rr_reform_name = reform_name,
              rr_budgetary_impact = budgetary,
              rr_distributional_impact = all_distributional acc,
              rr_winners_losers = all_winners_losers acc,
              rr_metrics = all_metrics acc,
              rr_income_curve = all_income_curve acc,
              rr_household_scatter = all_household_scatter acc,
              rr_constituency = all_constituency acc,
              rr_demographic_constituency = all_demographic acc\<rparr>)))"

section \<open>Example inputs\<close>

text \<open>
  A concrete series library, used to run the calculators on examples: a series is the
  list of its values, its sum the plain sum, and its Gini coefficient the relative mean
  absolute difference of the weighted values.
\<close>

definition example_gini :: "real list \<Rightarrow> real list \<Rightarrow> error + float" where
  "example_gini xs ws =
     (if length xs = length ws
      then Inr (fdiv
             (Fin (sum_list (map (\<lambda>(x, w). sum_list (map (\<lambda>(y, v). w * v * \<bar>x - y\<bar>) (zip xs ws)))
                                  (zip xs ws))))
             (Fin (2 * sum_list ws * sum_list (map (\<lambda>(x, w). w * x) (zip xs ws)))))
      else Inl ValueError)"

definition example_lib :: "(real list) microdf" where
  "example_lib = \<lparr>ms_values = (\<lambda>xs. xs), ms_bool_values = map (\<lambda>x. x \<noteq> 0),
     ms_sub = map2 (-), ms_sum = sum_list, ms_gini = example_gini\<rparr>"

text \<open>
  A baseline and a reformed simulation over three households and four persons. The third
  household has no decile; its equivalised income is negative.
\<close>

definition example_baseline :: "(real list) microsimulation" where
  "example_baseline variable period map_to =
     (if variable = ''gov_balance'' then [1000000000, 2000000000]
      else if variable = ''student_loan_repayment'' then [3000000000, 0]
      else if variable = ''household_net_income'' then [100, 200, 300]
      else if variable = ''household_income_decile'' then [1, 1, 0]
      else if variable = ''household_weight'' then [1, 1, 5]
      else if variable = ''household_count_people'' then [2, 3, 1]
      else if variable = ''equiv_household_net_income'' then [50, 100, -10]
      else if variable = ''num_children'' then [5, 5, 5]
      else if variable = ''is_married'' then [0, 0, 0]
      else if variable = ''in_poverty_bhc'' then [1, 1, 0, 0]
      else if variable = ''person_weight'' then [1, 1, 1, 1]
      else [])"

definition example_reformed :: "(real list) microsimulation" where
  "example_reformed variable period map_to =
     (if variable = ''gov_balance'' then [500000000, 500000000]
      else if variable = ''student_loan_repayment'' then [4000000000, 1000000000]
      else if variable = ''household_net_income'' then [110, 180, 300]
      else if variable = ''equiv_household_net_income'' then [60, 90, -10]
      else if variable = ''in_poverty_bhc'' then [1, 0, 0, 0]
      else example_baseline variable period map_to)"

text \<open>Reading a number back from a row, to state what a calculator reports.\<close>

definition pyval_real :: "pyval \<Rightarrow> real" where
  "pyval_real v = (case v of PyFloat (Fin x) \<Rightarrow> x | PyInt i \<Rightarrow> real_of_int i | _ \<Rightarrow> 0)"

text \<open>The rows of a result list that carry a given decile label.\<close>

definition rows_of_decile :: "string \<Rightarrow> row list \<Rightarrow> row list" where
  "rows_of_decile label rows = filter (\<lambda>row. map_of row ''decile'' = Some (PyStr label)) rows"

text \<open>
  The average change a result list reports under a decile label; zero when it has no
  such row.
\<close>

definition reported_avg_change :: "row list \<Rightarrow> string \<Rightarrow> real" where
  "reported_avg_change rows label =
     (case rows_of_decile label rows of
        [] \<Rightarrow> 0
      | row # _ \<Rightarrow> (case map_of row ''avg_change'' of None \<Rightarrow> 0 | Some v \<Rightarrow> pyval_real v))"

text \<open>A decile table: one unit of weight zero in decile 1, two units in decile 2.\<close>

definition example_df :: decile_df where
  "example_df =
     [\<lparr>df_household_income_decile = 1, df_baseline_income = 100, df_reform_income = 110,
       df_income_change = 10, df_household_weight = 0\<rparr>,
      \<lparr>df_household_income_decile = 2, df_baseline_income = 100, df_reform_income = 110,
       df_income_change = 10, df_household_weight = 2\<rparr>,
      \<lparr>df_household_income_decile = 2, df_baseline_income = 300, df_reform_income = 295,
       df_income_change = -5, df_household_weight = 1\<rparr>]"

text \<open>A decile table that still holds a unit without a decile (label 0).\<close>

definition unclassified_df :: decile_df where
  "unclassified_df =
     [\<lparr>df_household_income_decile = 1, df_baseline_income = 100, df_reform_income = 110,
       df_income_change = 10, df_household_weight = 1\<rparr>,
      \<lparr>df_household_income_decile = 0, df_baseline_income = 200, df_reform_income = 220,
       df_income_change = 20, df_household_weight = 1\<rparr>]"

text \<open>The example population with every person weight set to zero.\<close>

definition zero_weight_baseline :: "(real list) microsimulation" where
  "zero_weight_baseline variable period map_to =
     (if variable = ''person_weight'' then [0, 0, 0, 0]
      else example_baseline variable period map_to)"

text \<open>A simulation whose equivalised incomes are those of another, multiplied by \<open>c\<close>.\<close>

definition scale_equiv :: "real \<Rightarrow> (real list) microsimulation \<Rightarrow> (real list) microsimulation" where
  "scale_equiv c sim variable period map_to =
     (if variable = ''equiv_household_net_income'' then map ((*) c) (sim variable period map_to)
      else sim variable period map_to)"

section \<open>Stating the cross-tabulation\<close>





text \<open>A reference table with a single constituency.\<close>

definition example_constituencies :: "constituency list" where
  "example_constituencies = [\<lparr>code = ''S14000001'', name = ''Aberdeen North''\<rparr>]"

text \<open>
  A processor whose calculators return one row per call, tagged with the calculator and
  the year, and a file system in which the weights file is missing.
\<close>

definition tagged_row :: "string \<Rightarrow> int \<Rightarrow> row" where
  "tagged_row tag year = [(''metric'', PyStr tag), (''year'', PyInt year)]"

definition example_processor :: "(real list, unit) reform_processor" where
  "example_processor =
     \<lparr>reform = \<lparr>r_id = ''r'', r_name = ''R'', r_to_scenario = (), r_to_baseline_scenario = None\<rparr>,
      config_years = [2026, 2027],
      budgetary_calc = (\<lambda>baseline reformed reform_id reform_name.
                          Inr [tagged_row ''budgetary'' 2026, tagged_row ''budgetary'' 2027]),
      distributional_calc = (\<lambda>baseline reformed reform_id reform_name year.
                          Inr ([tagged_row ''distributional'' year], [])),
      winners_losers_calc = (\<lambda>decile_df reform_id reform_name year.
                          Inr [tagged_row ''winners_losers'' year]),
      metrics_calc = (\<lambda>baseline reformed reform_id reform_name year.
                          Inr [tagged_row ''metrics'' year]),
      income_curve_calc = (\<lambda>baseline_scenario scenario reform_id reform_name year.
                          Inr [tagged_row ''income_curve'' year]),
      household_scatter_calc = (\<lambda>baseline reformed reform_id reform_name year.
                          Inr [tagged_row ''household_scatter'' year]),
      constituency_calc = (\<lambda>baseline reformed reform_id year weights constituency_df.
                          Inr [tagged_row ''constituency'' year]),
      demographic_calc = (\<lambda>baseline reformed reform_id year weights constituency_df.
                          Inr [tagged_row ''demographic_constituency'' year])\<rparr>"

definition missing_weights_fs :: file_system where
  "missing_weights_fs =
     \<lparr>weights_path_exists = False, constituencies_path_exists = True,
      read_weights = Inl FileNotFoundError, read_constituencies = Inr example_constituencies\<rparr>"

section \<open>Verified properties\<close>

subsection \<open>Budgetary impact\<close>

lemma budgetary_loop_eq:
  "budgetary_loop L baseline reformed reform_id reform_name years results =
     results @ map (\<lambda>year. budgetary_row reform_id reform_name year
        (if reform_id \<in> set STUDENT_LOAN_REFORMS
         then ms_sum L (ms_sub L (reformed ''student_loan_repayment'' year None)
                                 (baseline ''student_loan_repayment'' year None)) / 1000000000
         else ms_sum L (ms_sub L (reformed ''gov_balance'' year None)
                                 (baseline ''gov_balance'' year None)) / 1000000000)) years"
  by (induction years arbitrary: results) (simp_all add: Let_def)

text \<open>
  C4. For a reform whose identifier is in \<open>STUDENT_LOAN_REFORMS\<close>, the budgetary
  calculator returns one row for each configured year, in order, holding the reform's
  identifier and name, the year, and as \<open>value\<close> the sum of the difference (reform minus
  baseline) of the student-loan repayment series divided by \<open>10\<^sup>9\<close>; for every other
  identifier the \<open>value\<close> is the same quantity of the government-balance series. Neither
  branch reads the other branch's variable.
\<close>

theorem budgetary_selects_aggregate:
  "(reform_id \<in> set STUDENT_LOAN_REFORMS \<longrightarrow>
      BudgetaryImpactCalculator_calculate years L baseline reformed reform_id reform_name =
        map (\<lambda>year. [(''reform_id'', PyStr reform_id),
                      (''reform_name'', PyStr reform_name),
                      (''year'', PyInt year),
                      (''value'', PyFloat (Fin
                         (ms_sum L (ms_sub L (reformed ''student_loan_repayment'' year None)
                                             (baseline ''student_loan_repayment'' year None))
                          / 1000000000)))])
            years)
   \<and> (reform_id \<notin> set STUDENT_LOAN_REFORMS \<longrightarrow>
      BudgetaryImpactCalculator_calculate years L baseline reformed reform_id reform_name =
        map (\<lambda>year. [(''reform_id'', PyStr reform_id),
                      (''reform_name'', PyStr reform_name),
                      (''year'', PyInt year),
                      (''value'', PyFloat (Fin
                         (ms_sum L (ms_sub L (reformed ''gov_balance'' year None)
                                             (baseline ''gov_balance'' year None))
                          / 1000000000)))])
            years)"
  by (simp add: BudgetaryImpactCalculator_calculate_def budgetary_loop_eq budgetary_row_def)

text \<open>
  Both aggregates are available in the example and differ: the repayments rise by two
  billion, the balance falls by two billion.
\<close>

theorem budgetary_selects_aggregate_witness:
  "''freeze_student_loan_thresholds'' \<in> set STUDENT_LOAN_REFORMS
   \<and> BudgetaryImpactCalculator_calculate [2026, 2027] example_lib example_baseline example_reformed
        ''freeze_student_loan_thresholds'' ''Freeze'' =
      [[(''reform_id'', PyStr ''freeze_student_loan_thresholds''), (''reform_name'', PyStr ''Freeze''),
        (''year'', PyInt 2026), (''value'', PyFloat (Fin 2))],
       [(''reform_id'', PyStr ''freeze_student_loan_thresholds''), (''reform_name'', PyStr ''Freeze''),
        (''year'', PyInt 2027), (''value'', PyFloat (Fin 2))]]
   \<and> ''scp_inflation'' \<notin> set STUDENT_LOAN_REFORMS
   \<and> BudgetaryImpactCalculator_calculate [2026, 2027] example_lib example_baseline example_reformed
        ''scp_inflation'' ''SCP'' =
      [[(''reform_id'', PyStr ''scp_inflation''), (''reform_name'', PyStr ''SCP''),
        (''year'', PyInt 2026), (''value'', PyFloat (Fin (- 2)))],
       [(''reform_id'', PyStr ''scp_inflation''), (''reform_name'', PyStr ''SCP''),
        (''year'', PyInt 2027), (''value'', PyFloat (Fin (- 2)))]]"
  using budgetary_selects_aggregate [of "''freeze_student_loan_thresholds''" "[2026, 2027]"
          example_lib example_baseline example_reformed "''Freeze''"]
        budgetary_selects_aggregate [of "''scp_inflation''" "[2026, 2027]"
          example_lib example_baseline example_reformed "''SCP''"]
  by (simp add: STUDENT_LOAN_REFORMS_def example_lib_def example_baseline_def example_reformed_def)

subsection \<open>Rows per decile\<close>

lemma str_values:
  "str 0 = ''0''" "str 1 = ''1''" "str 2 = ''2''" "str 3 = ''3''" "str 4 = ''4''" "str 5 = ''5''"
  "str 6 = ''6''" "str 7 = ''7''" "str 8 = ''8''" "str 9 = ''9''" "str 10 = ''10''"
  by (simp_all add: str_def str_nat.simps)

lemma winners_loop_eq:
  "winners_loop reform_id reform_name year df ds results =
     results @ concat (map (\<lambda>d. if decile_data df d = [] then []
                                 else [winners_row reform_id reform_name year (str d)
                                         (df_avg_change (decile_data df d))]) ds)"
  by (induction ds arbitrary: results) (simp_all add: Let_def)

lemma distributional_loop_eq:
  "distributional_loop reform_id reform_name year df ds results =
     results @ concat (map (\<lambda>d. if decile_data df d = [] then []
                                 else [distributional_row reform_id reform_name year d
                                         (decile_data df d)]) ds)"
  by (induction ds arbitrary: results) (simp_all add: Let_def)

lemma winners_row_decile [simp]:
  "map_of (winners_row reform_id reform_name year label v) ''decile'' = Some (PyStr label)"
  by (simp add: winners_row_def)

lemma winners_row_avg [simp]:
  "map_of (winners_row reform_id reform_name year label v) ''avg_change'' = Some v"
  by (simp add: winners_row_def)

lemma decile_cases:
  "1 \<le> d \<Longrightarrow> d \<le> 10 \<Longrightarrow>
     d = 1 \<or> d = 2 \<or> d = 3 \<or> d = 4 \<or> d = 5 \<or> d = 6 \<or> d = 7 \<or> d = 8 \<or> d = 9 \<or> d = (10::int)"
  by arith

lemma winners_rows_of_decile:
  assumes "1 \<le> d" "d \<le> 10"
  shows "rows_of_decile (str d)
           (WinnersLosersCalculator_calculate_from_dataframe reform_id reform_name year df) =
         (if decile_data df d = [] then []
          else [winners_row reform_id reform_name year (str d) (df_avg_change (decile_data df d))])"
  using decile_cases [OF assms]
  by (elim disjE)
     (simp_all add: rows_of_decile_def WinnersLosersCalculator_calculate_from_dataframe_def
        winners_loop_eq str_values)

lemma winners_rows_of_all:
  "rows_of_decile ''all''
     (WinnersLosersCalculator_calculate_from_dataframe reform_id reform_name year df) =
   [winners_row reform_id reform_name year ''all'' (df_avg_change df)]"
  by (simp add: rows_of_decile_def WinnersLosersCalculator_calculate_from_dataframe_def
        winners_loop_eq str_values)

lemma distributional_row_decile [simp]:
  "map_of (distributional_row reform_id reform_name year d dd) ''decile'' =
     Some (PyStr (decile_names ! nat (d - 1)))"
  by (simp add: distributional_row_def)

lemma distributional_rows_of_decile:
  assumes "1 \<le> d" "d \<le> 10"
  shows "rows_of_decile (decile_names ! nat (d - 1))
           (DistributionalImpactCalculator_calculate_from_dataframe reform_id reform_name year df) =
         (if decile_data df d = [] then []
          else [distributional_row reform_id reform_name year d (decile_data df d)])"
  using decile_cases [OF assms]
  by (elim disjE)
     (simp_all add: rows_of_decile_def DistributionalImpactCalculator_calculate_from_dataframe_def
        distributional_loop_eq decile_names_def)

lemma example_df_decile_data:
  "decile_data example_df 1 = [example_df ! 0]"
  "decile_data example_df 2 = [example_df ! 1, example_df ! 2]"
  "decile_data example_df 3 = []"
  by (simp_all add: example_df_def decile_data_def)

subsection \<open>Winners and losers\<close>

text \<open>
  C1 (as amended). A decile group (1 to 10) with no unit in the table produces no row. A
  group that has units produces exactly one row: its \<open>avg_change\<close> is the weighted
  average \<open>\<Sum>(w\<cdot>\<Delta>y) / \<Sum>w\<close> when the group's total weight is positive, and \<open>0\<close> when the
  total weight is zero (or negative).
\<close>

theorem winners_decile_row:
  assumes "1 \<le> d" and "d \<le> 10"
  shows "(decile_data df d = [] \<longrightarrow>
            rows_of_decile (str d)
              (WinnersLosersCalculator_calculate_from_dataframe reform_id reform_name year df) = [])
       \<and> (decile_data df d \<noteq> [] \<and> df_total_hh (decile_data df d) > 0 \<longrightarrow>
            rows_of_decile (str d)
              (WinnersLosersCalculator_calculate_from_dataframe reform_id reform_name year df) =
            [[(''reform_id'', PyStr reform_id), (''reform_name'', PyStr reform_name),
              (''year'', PyInt year), (''decile'', PyStr (str d)),
              (''avg_change'', PyFloat (Fin (df_weighted_change (decile_data df d)
                                              / df_total_hh (decile_data df d))))]])
       \<and> (decile_data df d \<noteq> [] \<and> df_total_hh (decile_data df d) \<le> 0 \<longrightarrow>
            rows_of_decile (str d)
              (WinnersLosersCalculator_calculate_from_dataframe reform_id reform_name year df) =
            [[(''reform_id'', PyStr reform_id), (''reform_name'', PyStr reform_name),
              (''year'', PyInt year), (''decile'', PyStr (str d)),
              (''avg_change'', PyInt 0)]])"
  using winners_rows_of_decile [OF assms, of reform_id reform_name year df]
  by (simp add: df_avg_change_def winners_row_def)

theorem winners_decile_row_witness:
  "decile_data example_df 3 = []
   \<and> rows_of_decile ''3''
        (WinnersLosersCalculator_calculate_from_dataframe ''r'' ''R'' 2026 example_df) = []
   \<and> df_total_hh (decile_data example_df 2) = 3
   \<and> rows_of_decile ''2''
        (WinnersLosersCalculator_calculate_from_dataframe ''r'' ''R'' 2026 example_df) =
      [[(''reform_id'', PyStr ''r''), (''reform_name'', PyStr ''R''), (''year'', PyInt 2026),
        (''decile'', PyStr ''2''), (''avg_change'', PyFloat (Fin 5))]]
   \<and> length (decile_data example_df 1) = 1 \<and> df_total_hh (decile_data example_df 1) = 0
   \<and> rows_of_decile ''1''
        (WinnersLosersCalculator_calculate_from_dataframe ''r'' ''R'' 2026 example_df) =
      [[(''reform_id'', PyStr ''r''), (''reform_name'', PyStr ''R''), (''year'', PyInt 2026),
        (''decile'', PyStr ''1''), (''avg_change'', PyInt 0)]]"
  using winners_decile_row [of 3 example_df "''r''" "''R''" 2026]
        winners_decile_row [of 2 example_df "''r''" "''R''" 2026]
        winners_decile_row [of 1 example_df "''r''" "''R''" 2026]
  by (simp add: example_df_def decile_data_def df_total_hh_def df_weighted_change_def str_values)

text \<open>
  The claim as stated fails: a table whose only unit sits in decile 1 with weight zero
  gets a row for decile 1, with \<open>avg_change\<close> 0.
\<close>

theorem winners_zero_weight_counterexample:
  "df_total_hh (decile_data
      [\<lparr>df_household_income_decile = 1, df_baseline_income = 100, df_reform_income = 110,
        df_income_change = 10, df_household_weight = 0\<rparr>] 1) = 0
   \<and> WinnersLosersCalculator_calculate_from_dataframe ''r'' ''R'' 2026
      [\<lparr>df_household_income_decile = 1, df_baseline_income = 100, df_reform_income = 110,
        df_income_change = 10, df_household_weight = 0\<rparr>] =
     [[(''reform_id'', PyStr ''r''), (''reform_name'', PyStr ''R''), (''year'', PyInt 2026),
       (''decile'', PyStr ''1''), (''avg_change'', PyInt 0)],
      [(''reform_id'', PyStr ''r''), (''reform_name'', PyStr ''R''), (''year'', PyInt 2026),
       (''decile'', PyStr ''all''), (''avg_change'', PyInt 0)]]"
  by (simp add: WinnersLosersCalculator_calculate_from_dataframe_def decile_data_def
        df_total_hh_def df_weighted_change_def df_avg_change_def winners_row_def str_values)

subsection \<open>Distributional impact\<close>

text \<open>
  C2 (as amended). For a decile 1 to 10 present in the table, the distributional calculator
  reports \<open>100 \<times> \<Sum>(w\<cdot>\<Delta>y) / \<Sum>(w\<cdot>y\<^sub>b\<^sub>a\<^sub>s\<^sub>e)\<close> when the weighted baseline income is
  positive, and exactly \<open>0\<close> when it is zero or negative.
\<close>

theorem distributional_decile_value:
  assumes "1 \<le> d" and "d \<le> 10" and "decile_data df d \<noteq> []"
  shows "(df_weighted_baseline (decile_data df d) > 0 \<longrightarrow>
            rows_of_decile (decile_names ! nat (d - 1))
              (DistributionalImpactCalculator_calculate_from_dataframe reform_id reform_name year df) =
            [[(''reform_id'', PyStr reform_id), (''reform_name'', PyStr reform_name),
              (''year'', PyInt year), (''decile'', PyStr (decile_names ! nat (d - 1))),
              (''value'', PyFloat (Fin (100 * df_weighted_change (decile_data df d)
                                          / df_weighted_baseline (decile_data df d))))]])
       \<and> (df_weighted_baseline (decile_data df d) \<le> 0 \<longrightarrow>
            rows_of_decile (decile_names ! nat (d - 1))
              (DistributionalImpactCalculator_calculate_from_dataframe reform_id reform_name year df) =
            [[(''reform_id'', PyStr reform_id), (''reform_name'', PyStr reform_name),
              (''year'', PyInt year), (''decile'', PyStr (decile_names ! nat (d - 1))),
              (''value'', PyInt 0)]])"
  using distributional_rows_of_decile [OF assms(1,2), of reform_id reform_name year df] assms(3)
  by (simp add: df_rel_change_def distributional_row_def)

theorem distributional_decile_value_witness:
  "decile_data example_df 2 \<noteq> [] \<and> df_weighted_baseline (decile_data example_df 2) = 500
   \<and> rows_of_decile ''2nd''
        (DistributionalImpactCalculator_calculate_from_dataframe ''r'' ''R'' 2026 example_df) =
      [[(''reform_id'', PyStr ''r''), (''reform_name'', PyStr ''R''), (''year'', PyInt 2026),
        (''decile'', PyStr ''2nd''), (''value'', PyFloat (Fin 3))]]
   \<and> decile_data example_df 1 \<noteq> [] \<and> df_weighted_baseline (decile_data example_df 1) = 0
   \<and> rows_of_decile ''1st''
        (DistributionalImpactCalculator_calculate_from_dataframe ''r'' ''R'' 2026 example_df) =
      [[(''reform_id'', PyStr ''r''), (''reform_name'', PyStr ''R''), (''year'', PyInt 2026),
        (''decile'', PyStr ''1st''), (''value'', PyInt 0)]]"
proof -
  have d2: "decile_data example_df 2 \<noteq> []" and d1: "decile_data example_df 1 \<noteq> []"
    by (simp_all add: example_df_decile_data)
  have b2: "df_weighted_baseline (decile_data example_df 2) = 500"
    and c2: "df_weighted_change (decile_data example_df 2) = 15"
    and b1: "df_weighted_baseline (decile_data example_df 1) = 0"
    by (simp_all add: decile_data_def df_weighted_baseline_def df_weighted_change_def
          example_df_def)
  have n2: "decile_names ! nat (2 - 1) = ''2nd''" and n1: "decile_names ! nat (1 - 1) = ''1st''"
    by (simp_all add: decile_names_def)
  have r2: "rows_of_decile ''2nd''
        (DistributionalImpactCalculator_calculate_from_dataframe ''r'' ''R'' 2026 example_df) =
      [[(''reform_id'', PyStr ''r''), (''reform_name'', PyStr ''R''), (''year'', PyInt 2026),
        (''decile'', PyStr ''2nd''), (''value'', PyFloat (Fin 3))]]"
    using distributional_decile_value [of 2 example_df "''r''" "''R''" 2026] d2
    unfolding b2 c2 n2 by simp
  have r1: "rows_of_decile ''1st''
        (DistributionalImpactCalculator_calculate_from_dataframe ''r'' ''R'' 2026 example_df) =
      [[(''reform_id'', PyStr ''r''), (''reform_name'', PyStr ''R''), (''year'', PyInt 2026),
        (''decile'', PyStr ''1st''), (''value'', PyInt 0)]]"
    using distributional_decile_value [of 1 example_df "''r''" "''R''" 2026] d1
    unfolding b1 n1 by simp
  from d2 b2 r2 d1 b1 r1 show ?thesis by blast
qed

text \<open>
  The claim as stated fails for a negative weighted baseline income: it is nonzero, the
  formula gives \<open>-10\<close>, and the calculator reports \<open>0\<close>.
\<close>

theorem distributional_negative_baseline_counterexample:
  "df_weighted_baseline (decile_data
      [\<lparr>df_household_income_decile = 1, df_baseline_income = -100, df_reform_income = -90,
        df_income_change = 10, df_household_weight = 1\<rparr>] 1) = -100
   \<and> 100 * df_weighted_change (decile_data
      [\<lparr>df_household_income_decile = 1, df_baseline_income = -100, df_reform_income = -90,
        df_income_change = 10, df_household_weight = 1\<rparr>] 1) / (-100) = -10
   \<and> DistributionalImpactCalculator_calculate_from_dataframe ''r'' ''R'' 2026
      [\<lparr>df_household_income_decile = 1, df_baseline_income = -100, df_reform_income = -90,
        df_income_change = 10, df_household_weight = 1\<rparr>] =
     [[(''reform_id'', PyStr ''r''), (''reform_name'', PyStr ''R''), (''year'', PyInt 2026),
       (''decile'', PyStr ''1st''), (''value'', PyInt 0)]]"
  by (simp add: DistributionalImpactCalculator_calculate_from_dataframe_def decile_data_def
        df_weighted_baseline_def df_weighted_change_def df_rel_change_def distributional_row_def
        decile_names_def)

subsection \<open>The overall row of winners and losers\<close>

lemma sum_list_delta_none:
  "x \<notin> set ds \<Longrightarrow> (\<Sum>d\<leftarrow>ds. if d = x then (c::real) else 0) = 0"
  by (induction ds) auto

lemma sum_list_delta:
  "distinct ds \<Longrightarrow> x \<in> set ds \<Longrightarrow> (\<Sum>d\<leftarrow>ds. if d = x then (c::real) else 0) = c"
  by (induction ds) (auto simp: sum_list_delta_none)

lemma sum_by_decile:
  assumes "\<forall>r\<in>set df. \<exists>d\<in>set ds. df_household_income_decile r = real_of_int d"
    and "distinct ds"
  shows "(\<Sum>d\<leftarrow>ds. sum_list (map f (decile_data df d))) = sum_list (map (f :: decile_row \<Rightarrow> real) df)"
  using assms(1)
proof (induction df)
  case Nil
  show ?case by (simp add: decile_data_def)
next
  case (Cons r df)
  from Cons.prems obtain d0 where d0: "d0 \<in> set ds" "df_household_income_decile r = real_of_int d0"
    by auto
  have step: "\<And>d. sum_list (map f (decile_data (r # df) d)) =
           (if d = d0 then f r else 0) + sum_list (map f (decile_data df d))"
    using d0(2) by (simp add: decile_data_def)
  have "(\<Sum>d\<leftarrow>ds. sum_list (map f (decile_data (r # df) d))) =
        (\<Sum>d\<leftarrow>ds. if d = d0 then f r else 0) + (\<Sum>d\<leftarrow>ds. sum_list (map f (decile_data df d)))"
    by (simp add: step sum_list_addf)
  also have "\<dots> = f r + sum_list (map f df)"
    using Cons.IH Cons.prems d0(1) assms(2) by (simp add: sum_list_delta)
  finally show ?case by simp
qed

lemma zero_weight_zero_change:
  assumes "\<forall>r\<in>set xs. df_household_weight r \<ge> 0" and "df_total_hh xs \<le> 0"
  shows "df_weighted_change xs = 0"
proof -
  have "\<forall>r\<in>set xs. df_household_weight r = 0"
    using assms
  proof (induction xs)
    case Nil
    then show ?case by simp
  next
    case (Cons a xs)
    have nn: "0 \<le> sum_list (map df_household_weight xs)"
      using Cons.prems(1) by (intro sum_list_nonneg) auto
    from Cons.prems have a0: "df_household_weight a = 0" and rest: "df_total_hh xs \<le> 0"
      using nn by (auto simp: df_total_hh_def)
    with Cons show ?case by auto
  qed
  then show ?thesis
    by (induction xs) (auto simp: df_weighted_change_def)
qed

lemma reported_decile_avg:
  assumes "1 \<le> d" "d \<le> 10"
  shows "reported_avg_change
           (WinnersLosersCalculator_calculate_from_dataframe reform_id reform_name year df) (str d) =
         (if df_total_hh (decile_data df d) > 0
          then df_weighted_change (decile_data df d) / df_total_hh (decile_data df d) else 0)"
  using winners_rows_of_decile [OF assms, of reform_id reform_name year df]
  by (auto simp: reported_avg_change_def df_avg_change_def pyval_real_def df_total_hh_def)

lemma reported_all_avg:
  "reported_avg_change
     (WinnersLosersCalculator_calculate_from_dataframe reform_id reform_name year df) ''all'' =
   (if df_total_hh df > 0 then df_weighted_change df / df_total_hh df else 0)"
  by (simp add: winners_rows_of_all reported_avg_change_def df_avg_change_def pyval_real_def)

lemma weighted_decile_avg:
  assumes "\<forall>r\<in>set df. df_household_weight r \<ge> 0" "1 \<le> d" "d \<le> 10"
  shows "df_total_hh (decile_data df d) *
         reported_avg_change
           (WinnersLosersCalculator_calculate_from_dataframe reform_id reform_name year df) (str d) =
         df_weighted_change (decile_data df d)"
proof (cases "df_total_hh (decile_data df d) > 0")
  case True
  then show ?thesis by (simp add: reported_decile_avg [OF assms(2,3)])
next
  case False
  have "\<forall>r\<in>set (decile_data df d). df_household_weight r \<ge> 0"
    using assms(1) by (simp add: decile_data_def)
  with False have "df_weighted_change (decile_data df d) = 0"
    by (intro zero_weight_zero_change) auto
  with False show ?thesis by (simp add: reported_decile_avg [OF assms(2,3)])
qed

text \<open>
  C7 (as amended). For a decile table with non-negative weights and positive total weight,
  the \<open>all\<close> row reports the weight-aggregated average \<open>\<Sum>(w\<cdot>\<Delta>y) / \<Sum>w\<close> over all
  units of the table; when every unit's decile label is one of 1 to 10, this equals the
  weighted mean of the reported per-decile averages, each weighted by its decile's total
  weight.
\<close>

theorem overall_row_weighted_mean:
  assumes "\<forall>r\<in>set df. df_household_weight r \<ge> 0" and "df_total_hh df > 0"
  shows "rows_of_decile ''all''
           (WinnersLosersCalculator_calculate_from_dataframe reform_id reform_name year df) =
         [[(''reform_id'', PyStr reform_id), (''reform_name'', PyStr reform_name),
           (''year'', PyInt year), (''decile'', PyStr ''all''),
           (''avg_change'', PyFloat (Fin (df_weighted_change df / df_total_hh df)))]]
       \<and> ((\<forall>r\<in>set df. \<exists>d\<in>set [1, 2, 3, 4, 5, 6, 7, 8, 9, 10].
              df_household_income_decile r = real_of_int d) \<longrightarrow>
          reported_avg_change
            (WinnersLosersCalculator_calculate_from_dataframe reform_id reform_name year df) ''all'' =
            (\<Sum>d\<leftarrow>[1, 2, 3, 4, 5, 6, 7, 8, 9, 10].
               df_total_hh (decile_data df d) *
               reported_avg_change
                 (WinnersLosersCalculator_calculate_from_dataframe reform_id reform_name year df)
                 (str d))
            / (\<Sum>d\<leftarrow>[1, 2, 3, 4, 5, 6, 7, 8, 9, 10]. df_total_hh (decile_data df d)))"
proof (intro conjI impI)
  show "rows_of_decile ''all''
           (WinnersLosersCalculator_calculate_from_dataframe reform_id reform_name year df) =
         [[(''reform_id'', PyStr reform_id), (''reform_name'', PyStr reform_name),
           (''year'', PyInt year), (''decile'', PyStr ''all''),
           (''avg_change'', PyFloat (Fin (df_weighted_change df / df_total_hh df)))]]"
    using assms(2) by (simp add: winners_rows_of_all df_avg_change_def winners_row_def)
next
  let ?ds = "[1, 2, 3, 4, 5, 6, 7, 8, 9, 10] :: int list"
  let ?out = "WinnersLosersCalculator_calculate_from_dataframe reform_id reform_name year df"
  assume labels: "\<forall>r\<in>set df. \<exists>d\<in>set ?ds. df_household_income_decile r = real_of_int d"
  have dist: "distinct ?ds" by simp
  have "map (\<lambda>d. df_total_hh (decile_data df d) * reported_avg_change ?out (str d)) ?ds =
        map (\<lambda>d. df_weighted_change (decile_data df d)) ?ds"
    by (rule map_cong [OF refl]) (auto intro!: weighted_decile_avg assms(1))
  then have num: "(\<Sum>d\<leftarrow>?ds. df_total_hh (decile_data df d) * reported_avg_change ?out (str d)) =
        df_weighted_change df"
    using sum_by_decile [OF labels dist, of "\<lambda>r. df_income_change r * df_household_weight r"]
    by (simp add: df_weighted_change_def)
  have den: "(\<Sum>d\<leftarrow>?ds. df_total_hh (decile_data df d)) = df_total_hh df"
    using sum_by_decile [OF labels dist, of df_household_weight]
    by (simp add: df_total_hh_def)
  show "reported_avg_change ?out ''all'' =
        (\<Sum>d\<leftarrow>?ds. df_total_hh (decile_data df d) * reported_avg_change ?out (str d))
        / (\<Sum>d\<leftarrow>?ds. df_total_hh (decile_data df d))"
    unfolding num den using assms(2) by (simp add: reported_all_avg)
qed

theorem overall_row_weighted_mean_witness:
  "df_weighted_change example_df / df_total_hh example_df = 5
   \<and> rows_of_decile ''all''
        (WinnersLosersCalculator_calculate_from_dataframe ''r'' ''R'' 2026 example_df) =
      [[(''reform_id'', PyStr ''r''), (''reform_name'', PyStr ''R''), (''year'', PyInt 2026),
        (''decile'', PyStr ''all''),
        (''avg_change'', PyFloat (Fin (df_weighted_change example_df / df_total_hh example_df)))]]
   \<and> reported_avg_change
        (WinnersLosersCalculator_calculate_from_dataframe ''r'' ''R'' 2026 example_df) ''all'' =
      (\<Sum>d\<leftarrow>[1, 2, 3, 4, 5, 6, 7, 8, 9, 10].
         df_total_hh (decile_data example_df d) *
         reported_avg_change
           (WinnersLosersCalculator_calculate_from_dataframe ''r'' ''R'' 2026 example_df) (str d))
      / (\<Sum>d\<leftarrow>[1, 2, 3, 4, 5, 6, 7, 8, 9, 10]. df_total_hh (decile_data example_df d))"
proof -
  have h1: "\<forall>r\<in>set example_df. df_household_weight r \<ge> 0"
    by (simp add: example_df_def)
  have h2: "df_total_hh example_df > 0"
    by (simp add: example_df_def df_total_hh_def)
  have h3: "\<forall>r\<in>set example_df. \<exists>d\<in>set [1, 2, 3, 4, 5, 6, 7, 8, 9, 10].
              df_household_income_decile r = real_of_int d"
    by (simp add: example_df_def)
  have v: "df_weighted_change example_df / df_total_hh example_df = 5"
    by (simp add: example_df_def df_total_hh_def df_weighted_change_def)
  from overall_row_weighted_mean [OF h1 h2, of "''r''" "''R''" 2026] h3 v
  show ?thesis by blast
qed

text \<open>
  The claim as stated fails for a table that holds a unit outside the deciles 1 to 10:
  the \<open>all\<close> row averages over every unit (15), the per-decile rows only over the
  classified ones (10).
\<close>

theorem overall_row_unclassified_counterexample:
  "map df_household_weight unclassified_df = [1, 1]
   \<and> reported_avg_change
        (WinnersLosersCalculator_calculate_from_dataframe ''r'' ''R'' 2026 unclassified_df) ''all''
      = 15
   \<and> (\<Sum>d\<leftarrow>[1, 2, 3, 4, 5, 6, 7, 8, 9, 10].
         df_total_hh (decile_data unclassified_df d) *
         reported_avg_change
           (WinnersLosersCalculator_calculate_from_dataframe ''r'' ''R'' 2026 unclassified_df)
           (str d))
      / (\<Sum>d\<leftarrow>[1, 2, 3, 4, 5, 6, 7, 8, 9, 10]. df_total_hh (decile_data unclassified_df d))
      = 10"
proof -
  have w: "map df_household_weight unclassified_df = [1, 1]"
    by (simp add: unclassified_df_def)
  have a: "reported_avg_change
        (WinnersLosersCalculator_calculate_from_dataframe ''r'' ''R'' 2026 unclassified_df) ''all''
      = 15"
    by (simp add: reported_all_avg unclassified_df_def df_total_hh_def df_weighted_change_def)
  have t: "map (\<lambda>d. df_total_hh (decile_data unclassified_df d)) [1, 2, 3, 4, 5, 6, 7, 8, 9, 10] =
           [1, 0, 0, 0, 0, 0, 0, 0, 0, 0]"
    by (simp add: unclassified_df_def decile_data_def df_total_hh_def)
  have r: "map (\<lambda>d. df_total_hh (decile_data unclassified_df d) *
            reported_avg_change
              (WinnersLosersCalculator_calculate_from_dataframe ''r'' ''R'' 2026 unclassified_df)
              (str d)) [1, 2, 3, 4, 5, 6, 7, 8, 9, 10] =
           [10, 0, 0, 0, 0, 0, 0, 0, 0, 0]"
    by (simp add: reported_decile_avg unclassified_df_def decile_data_def df_total_hh_def
          df_weighted_change_def)
  show ?thesis unfolding t r using w a by simp
qed

subsection \<open>The shared decile table\<close>

lemma build_decile_df_Inr:
  assumes "build_decile_df D B R C W = Inr df"
  shows "df = map (\<lambda>i. \<lparr>df_household_income_decile = D ! i, df_baseline_income = B ! i,
                          df_reform_income = R ! i, df_income_change = C ! i,
                          df_household_weight = W ! i\<rparr>) [0..<length D]"
  using assms by (simp add: build_decile_df_def split: if_splits)

lemma calculate_table:
  assumes "DistributionalImpactCalculator_calculate L baseline reformed reform_id reform_name year
             = Inr (results, decile_df)"
  shows "decile_df =
     filter (\<lambda>r. df_household_income_decile r \<ge> 1)
       (map (\<lambda>i. \<lparr>df_household_income_decile =
                      ms_values L (baseline ''household_income_decile'' year (Some ''household'')) ! i,
                   df_baseline_income =
                      ms_values L (baseline ''household_net_income'' year (Some ''household'')) ! i,
                   df_reform_income =
                      ms_values L (reformed ''household_net_income'' year (Some ''household'')) ! i,
                   df_income_change =
                      ms_values L (ms_sub L (reformed ''household_net_income'' year (Some ''household''))
                                            (baseline ''household_net_income'' year (Some ''household''))) ! i,
                   df_household_weight =
                      ms_values L (baseline ''household_weight'' year (Some ''household'')) ! i\<rparr>)
            [0..<length (ms_values L (baseline ''household_income_decile'' year (Some ''household'')))])"
  using assms
  by (auto simp: DistributionalImpactCalculator_calculate_def ebind_def Let_def
           split: sum.splits dest!: build_decile_df_Inr)

lemma sum_filter_map:
  "sum_list (map f (filter P (map g xs))) = (\<Sum>x\<leftarrow>xs. if P (g x) then (f (g x) :: real) else 0)"
  by (induction xs) auto

text \<open>
  C10. When \<open>DistributionalImpactCalculator.calculate\<close> returns, its table holds only
  units whose decile is at least 1, and the \<open>all\<close> row that the winners/losers
  calculator derives from this table averages over exactly the households of the
  simulation with decile at least 1: units with a smaller decile contribute neither to
  the weighted change nor to the total weight.
\<close>

theorem decile_table_only_classified:
  assumes "DistributionalImpactCalculator_calculate L baseline reformed reform_id reform_name year
             = Inr (results, decile_df)"
  shows "(\<forall>r\<in>set decile_df. df_household_income_decile r \<ge> 1)
       \<and> (let D = ms_values L (baseline ''household_income_decile'' year (Some ''household''));
               W = ms_values L (baseline ''household_weight'' year (Some ''household''));
               C = ms_values L (ms_sub L (reformed ''household_net_income'' year (Some ''household''))
                                         (baseline ''household_net_income'' year (Some ''household'')));
               total = (\<Sum>i\<leftarrow>[0..<length D]. if D ! i \<ge> 1 then W ! i else 0);
               change = (\<Sum>i\<leftarrow>[0..<length D]. if D ! i \<ge> 1 then C ! i * W ! i else 0)
           in rows_of_decile ''all''
                (WinnersLosersCalculator_calculate decile_df reform_id reform_name year) =
              [[(''reform_id'', PyStr reform_id), (''reform_name'', PyStr reform_name),
                (''year'', PyInt year), (''decile'', PyStr ''all''),
                (''avg_change'', if total > 0 then PyFloat (Fin (change / total)) else PyInt 0)]])"
proof -
  note tbl = calculate_table [OF assms]
  have cls: "\<forall>r\<in>set decile_df. df_household_income_decile r \<ge> 1"
    by (subst tbl) simp
  have tot: "df_total_hh decile_df =
      (\<Sum>i\<leftarrow>[0..<length (ms_values L (baseline ''household_income_decile'' year (Some ''household'')))].
          if ms_values L (baseline ''household_income_decile'' year (Some ''household'')) ! i \<ge> 1
          then ms_values L (baseline ''household_weight'' year (Some ''household'')) ! i else 0)"
    unfolding df_total_hh_def by (subst tbl) (simp add: sum_filter_map cong: if_cong)
  have chg: "df_weighted_change decile_df =
      (\<Sum>i\<leftarrow>[0..<length (ms_values L (baseline ''household_income_decile'' year (Some ''household'')))].
          if ms_values L (baseline ''household_income_decile'' year (Some ''household'')) ! i \<ge> 1
          then ms_values L (ms_sub L (reformed ''household_net_income'' year (Some ''household''))
                                     (baseline ''household_net_income'' year (Some ''household''))) ! i
               * ms_values L (baseline ''household_weight'' year (Some ''household'')) ! i else 0)"
    unfolding df_weighted_change_def by (subst tbl) (simp add: sum_filter_map cong: if_cong)
  have allrow: "rows_of_decile ''all''
                (WinnersLosersCalculator_calculate decile_df reform_id reform_name year) =
              [[(''reform_id'', PyStr reform_id), (''reform_name'', PyStr reform_name),
                (''year'', PyInt year), (''decile'', PyStr ''all''),
                (''avg_change'', if df_total_hh decile_df > 0
                   then PyFloat (Fin (df_weighted_change decile_df / df_total_hh decile_df))
                   else PyInt 0)]]"
    by (simp add: WinnersLosersCalculator_calculate_def winners_rows_of_all winners_row_def
          df_avg_change_def)
  show ?thesis
    using cls allrow unfolding tot chg by (simp add: Let_def)
qed

text \<open>
  In the example the third household (decile 0, weight 5) is dropped: the average is
  \<open>(10 - 20) / 2\<close>.
\<close>

theorem decile_table_only_classified_witness:
  "DistributionalImpactCalculator_calculate example_lib example_baseline example_reformed
     ''r'' ''R'' 2026 =
   Inr ([[(''reform_id'', PyStr ''r''), (''reform_name'', PyStr ''R''), (''year'', PyInt 2026),
          (''decile'', PyStr ''1st''), (''value'', PyFloat (Fin (- 10 / 3)))]],
        [\<lparr>df_household_income_decile = 1, df_baseline_income = 100, df_reform_income = 110,
          df_income_change = 10, df_household_weight = 1\<rparr>,
         \<lparr>df_household_income_decile = 1, df_baseline_income = 200, df_reform_income = 180,
          df_income_change = -20, df_household_weight = 1\<rparr>])
   \<and> rows_of_decile ''all''
        (WinnersLosersCalculator_calculate
          [\<lparr>df_household_income_decile = 1, df_baseline_income = 100, df_reform_income = 110,
            df_income_change = 10, df_household_weight = 1\<rparr>,
           \<lparr>df_household_income_decile = 1, df_baseline_income = 200, df_reform_income = 180,
            df_income_change = -20, df_household_weight = 1\<rparr>] ''r'' ''R'' 2026) =
      [[(''reform_id'', PyStr ''r''), (''reform_name'', PyStr ''R''), (''year'', PyInt 2026),
        (''decile'', PyStr ''all''), (''avg_change'', PyFloat (Fin (- 5)))]]"
proof -
  have run: "DistributionalImpactCalculator_calculate example_lib example_baseline example_reformed
     ''r'' ''R'' 2026 =
   Inr ([[(''reform_id'', PyStr ''r''), (''reform_name'', PyStr ''R''), (''year'', PyInt 2026),
          (''decile'', PyStr ''1st''), (''value'', PyFloat (Fin (- 10 / 3)))]],
        [\<lparr>df_household_income_decile = 1, df_baseline_income = 100, df_reform_income = 110,
          df_income_change = 10, df_household_weight = 1\<rparr>,
         \<lparr>df_household_income_decile = 1, df_baseline_income = 200, df_reform_income = 180,
          df_income_change = -20, df_household_weight = 1\<rparr>])"
    by (simp add: DistributionalImpactCalculator_calculate_def ebind_def Let_def
          build_decile_df_def example_lib_def example_baseline_def example_reformed_def
          upt_rec [of 0] upt_rec [of 1] upt_rec [of 2] upt_rec [of 3]
          DistributionalImpactCalculator_calculate_from_dataframe_def decile_data_def
          distributional_row_def df_rel_change_def df_weighted_baseline_def
          df_weighted_change_def decile_names_def)
  have vals: "ms_values example_lib (example_baseline ''household_income_decile'' 2026 (Some ''household'')) = [1, 1, 0]"
    "ms_values example_lib (example_baseline ''household_weight'' 2026 (Some ''household'')) = [1, 1, 5]"
    "ms_values example_lib (ms_sub example_lib (example_reformed ''household_net_income'' 2026 (Some ''household''))
         (example_baseline ''household_net_income'' 2026 (Some ''household''))) = [10, -20, 0]"
    by (simp_all add: example_lib_def example_baseline_def example_reformed_def)
  from decile_table_only_classified [OF run]
  have "rows_of_decile ''all''
        (WinnersLosersCalculator_calculate
          [\<lparr>df_household_income_decile = 1, df_baseline_income = 100, df_reform_income = 110,
            df_income_change = 10, df_household_weight = 1\<rparr>,
           \<lparr>df_household_income_decile = 1, df_baseline_income = 200, df_reform_income = 180,
            df_income_change = -20, df_household_weight = 1\<rparr>] ''r'' ''R'' 2026) =
      [[(''reform_id'', PyStr ''r''), (''reform_name'', PyStr ''R''), (''year'', PyInt 2026),
        (''decile'', PyStr ''all''), (''avg_change'', PyFloat (Fin (- 5)))]]"
    unfolding vals by (simp add: Let_def upt_rec [of 0] upt_rec [of 1] upt_rec [of 2] upt_rec [of 3])
  with run show ?thesis by blast
qed

subsection \<open>Household scatter\<close>

lemma scatter_loop_eq:
  assumes "\<forall>i\<in>set idx. i < length baseline_incomes \<and> i < length income_changes \<and> i < length weights"
    and "\<forall>ids. household_ids = Some ids \<longrightarrow> (\<forall>i\<in>set idx. i < length ids)"
  shows "scatter_loop reform_id reform_name year msk baseline_incomes income_changes weights
           household_ids idx results =
         Inr (results @
              map (\<lambda>i. scatter_row reform_id reform_name year
                          (baseline_incomes ! i) (income_changes ! i) (weights ! i)
                        @ (case household_ids of None \<Rightarrow> []
                           | Some ids \<Rightarrow> [(''household_id'', PyInt (py_int (ids ! i)))]))
                  (filter (\<lambda>i. msk ! i) idx))"
  using assms
proof (induction idx arbitrary: results)
  case Nil
  show ?case by simp
next
  case (Cons i idx)
  show ?case
  proof (cases household_ids)
    case None
    with Cons show ?thesis by (simp add: ebind_def np_get_def Let_def)
  next
    case (Some ids)
    with Cons show ?thesis by (simp add: ebind_def np_get_def Let_def)
  qed
qed

lemma map_filter_index:
  "map (\<lambda>i. f (xs ! i)) (filter (\<lambda>i. P (xs ! i)) [0..<length xs]) = map f (filter P xs)"
proof -
  have "map f (filter P (map (nth xs) [0..<length xs])) =
        map (\<lambda>i. f (xs ! i)) (filter (\<lambda>i. P (xs ! i)) [0..<length xs])"
    by (simp add: filter_map comp_def)
  then show ?thesis by (simp add: map_nth)
qed

lemma scatter_row_baseline:
  "map_of (scatter_row reform_id reform_name year b c w @ extra) ''baseline_income'' =
     Some (PyFloat (Fin b))"
  by (simp add: scatter_row_def)

text \<open>
  C6. Given arrays that cover every household (no array shorter than the baseline
  incomes), \<open>calculate_from_arrays\<close> returns one row for each household whose baseline
  income lies in the closed interval from \<open>min_income\<close> to \<open>max_income\<close>, in the
  order of the input, and no other row: the baseline incomes of the rows are exactly the
  qualifying incomes, each as often as it occurs. Nothing is sampled.
\<close>

theorem scatter_rows_exactly_in_window:
  assumes "length baseline_incomes \<le> length income_changes"
    and "length baseline_incomes \<le> length weights"
    and "\<forall>ids. household_ids = Some ids \<longrightarrow> length baseline_incomes \<le> length ids"
  shows "HouseholdScatterCalculator_calculate_from_arrays self reform_id reform_name year
           baseline_incomes income_changes weights household_ids =
         Inr (map (\<lambda>i. scatter_row reform_id reform_name year
                          (baseline_incomes ! i) (income_changes ! i) (weights ! i)
                        @ (case household_ids of None \<Rightarrow> []
                           | Some ids \<Rightarrow> [(''household_id'', PyInt (py_int (ids ! i)))]))
                  (filter (\<lambda>i. real_of_int (min_income self) \<le> baseline_incomes ! i
                              \<and> baseline_incomes ! i \<le> real_of_int (max_income self))
                          [0..<length baseline_incomes]))
       \<and> map (\<lambda>row. map_of row ''baseline_income'')
            (map (\<lambda>i. scatter_row reform_id reform_name year
                          (baseline_incomes ! i) (income_changes ! i) (weights ! i)
                        @ (case household_ids of None \<Rightarrow> []
                           | Some ids \<Rightarrow> [(''household_id'', PyInt (py_int (ids ! i)))]))
                  (filter (\<lambda>i. real_of_int (min_income self) \<le> baseline_incomes ! i
                              \<and> baseline_incomes ! i \<le> real_of_int (max_income self))
                          [0..<length baseline_incomes])) =
         map (\<lambda>b. Some (PyFloat (Fin b)))
           (filter (\<lambda>b. real_of_int (min_income self) \<le> b \<and> b \<le> real_of_int (max_income self))
                   baseline_incomes)"
proof
  let ?P = "\<lambda>b. real_of_int (min_income self) \<le> b \<and> b \<le> real_of_int (max_income self)"
  have idx: "\<forall>i\<in>set [0..<length baseline_incomes].
        i < length baseline_incomes \<and> i < length income_changes \<and> i < length weights"
    using assms(1,2) by auto
  have ids: "\<forall>ids. household_ids = Some ids \<longrightarrow> (\<forall>i\<in>set [0..<length baseline_incomes]. i < length ids)"
    using assms(3) by auto
  have flt: "filter (\<lambda>i. map ?P baseline_incomes ! i) [0..<length baseline_incomes] =
             filter (\<lambda>i. ?P (baseline_incomes ! i)) [0..<length baseline_incomes]"
    by (rule filter_cong) auto
  show "HouseholdScatterCalculator_calculate_from_arrays self reform_id reform_name year
           baseline_incomes income_changes weights household_ids =
         Inr (map (\<lambda>i. scatter_row reform_id reform_name year
                          (baseline_incomes ! i) (income_changes ! i) (weights ! i)
                        @ (case household_ids of None \<Rightarrow> []
                           | Some ids \<Rightarrow> [(''household_id'', PyInt (py_int (ids ! i)))]))
                  (filter (\<lambda>i. ?P (baseline_incomes ! i)) [0..<length baseline_incomes]))"
    unfolding HouseholdScatterCalculator_calculate_from_arrays_def Let_def
    by (simp only: scatter_loop_eq [OF idx ids] flt append_Nil)
next
  show "map (\<lambda>row. map_of row ''baseline_income'')
            (map (\<lambda>i. scatter_row reform_id reform_name year
                          (baseline_incomes ! i) (income_changes ! i) (weights ! i)
                        @ (case household_ids of None \<Rightarrow> []
                           | Some ids \<Rightarrow> [(''household_id'', PyInt (py_int (ids ! i)))]))
                  (filter (\<lambda>i. real_of_int (min_income self) \<le> baseline_incomes ! i
                              \<and> baseline_incomes ! i \<le> real_of_int (max_income self))
                          [0..<length baseline_incomes])) =
         map (\<lambda>b. Some (PyFloat (Fin b)))
           (filter (\<lambda>b. real_of_int (min_income self) \<le> b \<and> b \<le> real_of_int (max_income self))
                   baseline_incomes)"
    using map_filter_index [of "\<lambda>b. Some (PyFloat (Fin b))" baseline_incomes
            "\<lambda>b. real_of_int (min_income self) \<le> b \<and> b \<le> real_of_int (max_income self)"]
    by (simp add: comp_def scatter_row_baseline del: map_of_append)
qed

text \<open>
  The boundary values 0 and 150000 are kept; -1 and 150001 are dropped.
\<close>

theorem scatter_rows_exactly_in_window_witness:
  "HouseholdScatterCalculator_calculate_from_arrays \<lparr>max_income = 150000, min_income = 0\<rparr>
     ''r'' ''R'' 2026 [0, 150000, -1, 150001, 75000] [1, 2, 3, 4, 5] [6, 7, 8, 9, 10]
     (Some [11, 12, 13, 14, 15]) =
   Inr [[(''reform_id'', PyStr ''r''), (''reform_name'', PyStr ''R''), (''year'', PyInt 2026),
         (''baseline_income'', PyFloat (Fin 0)), (''income_change'', PyFloat (Fin 1)),
         (''household_weight'', PyFloat (Fin 6)), (''household_id'', PyInt 11)],
        [(''reform_id'', PyStr ''r''), (''reform_name'', PyStr ''R''), (''year'', PyInt 2026),
         (''baseline_income'', PyFloat (Fin 150000)), (''income_change'', PyFloat (Fin 2)),
         (''household_weight'', PyFloat (Fin 7)), (''household_id'', PyInt 12)],
        [(''reform_id'', PyStr ''r''), (''reform_name'', PyStr ''R''), (''year'', PyInt 2026),
         (''baseline_income'', PyFloat (Fin 75000)), (''income_change'', PyFloat (Fin 5)),
         (''household_weight'', PyFloat (Fin 10)), (''household_id'', PyInt 15)]]"
  using scatter_rows_exactly_in_window [of "[0, 150000, -1, 150001, 75000]" "[1, 2, 3, 4, 5]"
          "[6, 7, 8, 9, 10]" "Some [11, 12, 13, 14, 15]"
          "\<lparr>max_income = 150000, min_income = 0\<rparr>" "''r''" "''R''" 2026]
  by (simp add: scatter_row_def py_int_def upt_rec [of 0] upt_rec [of 1] upt_rec [of 2]
        upt_rec [of 3] upt_rec [of 4] upt_rec [of 5])

subsection \<open>Summary metrics\<close>

lemma example_percent_affected:
  "calc_percent_affected example_lib example_baseline example_reformed 2026 = Inr (PyFloat (Fin 100))"
  by (simp add: calc_percent_affected_def example_lib_def example_baseline_def example_reformed_def
        ebind_def np_binop_def np_mask_def Let_def)

lemma example_gini_change:
  "calc_gini_change example_lib example_baseline example_reformed 2026 = Inr (PyFloat (Fin (- 15 / 299)))"
  by (simp add: calc_gini_change_def example_lib_def example_baseline_def example_reformed_def
        ebind_def np_binop_def example_gini_def py_truediv_def Let_def)

lemma zero_weight_percent_affected:
  "calc_percent_affected example_lib zero_weight_baseline example_reformed 2026 =
     Inr (PyFloat (Fin 100))"
  by (simp add: calc_percent_affected_def example_lib_def zero_weight_baseline_def
        example_baseline_def example_reformed_def ebind_def np_binop_def np_mask_def Let_def)

lemma zero_weight_gini_change:
  "calc_gini_change example_lib zero_weight_baseline example_reformed 2026 =
     Inr (PyFloat (Fin (- 15 / 299)))"
  by (simp add: calc_gini_change_def example_lib_def zero_weight_baseline_def
        example_baseline_def example_reformed_def ebind_def np_binop_def example_gini_def
        py_truediv_def Let_def)

lemma zero_weight_poverty_change:
  "calc_poverty_change example_lib zero_weight_baseline example_reformed 2026 =
       Inr (PyFloat NaN, PyInt 0)"
  by (simp add: calc_poverty_change_def example_lib_def zero_weight_baseline_def
        example_baseline_def example_reformed_def ebind_def np_mask_def Let_def)

text \<open>
  C3. The claim asks that a zero total person weight yields zero-valued poverty metrics.
  The source divides by \<open>person_weight.sum()\<close> without a guard (unlike the guards on
  \<open>total_people\<close> and \<open>baseline_rate\<close> of the same method): with every person weight
  zero both poverty rates are \<open>0 / 0\<close>, and the reported percentage-point change is
  \<open>NaN\<close>, not zero. The run below is the whole of \<open>calculate\<close> on such an input.
\<close>

theorem poverty_zero_person_weight_nan:
  "sum_list (ms_values example_lib (zero_weight_baseline ''person_weight'' 2026 (Some ''person''))) = 0
   \<and> MetricsCalculator_calculate example_lib zero_weight_baseline example_reformed
        ''r'' ''R'' 2026 =
      Inr [[(''reform_id'', PyStr ''r''), (''reform_name'', PyStr ''R''), (''year'', PyInt 2026),
            (''people_affected'', PyFloat (Fin 100)),
            (''gini_change'', PyFloat (Fin (- 15 / 299))),
            (''poverty_change_pp'', PyFloat NaN),
            (''poverty_change_pct'', PyInt 0)]]"
  by (simp add: MetricsCalculator_calculate_def zero_weight_percent_affected
        zero_weight_gini_change zero_weight_poverty_change ebind_def)
     (simp add: example_lib_def zero_weight_baseline_def)

lemma fdiv_scale:
  "c > 0 \<Longrightarrow> fdiv (Fin (c * a)) (Fin (c * b)) = fdiv (Fin a) (Fin b)"
  by (simp add: zero_less_mult_iff)

lemma abs_scale: "c > 0 \<Longrightarrow> \<bar>c * x - c * y\<bar> = c * \<bar>x - (y::real)\<bar>"
  by (simp add: abs_mult flip: right_diff_distrib)

lemma example_gini_scale:
  assumes "c > 0"
  shows "example_gini (map ((*) c) xs) ws = example_gini xs ws"
proof (cases "length xs = length ws")
  case False
  then show ?thesis by (simp add: example_gini_def)
next
  case True
  let ?N = "\<lambda>xs. sum_list (map (\<lambda>(x, w). sum_list (map (\<lambda>(y, v). w * v * \<bar>x - y\<bar>) (zip xs ws)))
                              (zip xs ws))"
  let ?D = "\<lambda>xs. sum_list (map (\<lambda>(x, w). w * x) (zip xs ws))"
  have inner: "\<And>x w. (\<Sum>p\<leftarrow>zip xs ws. w * snd p * \<bar>c * x - c * fst p\<bar>) =
                      c * (\<Sum>p\<leftarrow>zip xs ws. w * snd p * \<bar>x - fst p\<bar>)"
  proof -
    fix x w
    have "(\<Sum>p\<leftarrow>zip xs ws. w * snd p * \<bar>c * x - c * fst p\<bar>) =
          (\<Sum>p\<leftarrow>zip xs ws. c * (w * snd p * \<bar>x - fst p\<bar>))"
      by (simp add: abs_scale [OF assms] mult_ac)
    also have "\<dots> = c * (\<Sum>p\<leftarrow>zip xs ws. w * snd p * \<bar>x - fst p\<bar>)"
      by (rule sum_list_const_mult)
    finally show "(\<Sum>p\<leftarrow>zip xs ws. w * snd p * \<bar>c * x - c * fst p\<bar>) =
               c * (\<Sum>p\<leftarrow>zip xs ws. w * snd p * \<bar>x - fst p\<bar>)" .
  qed
  have num: "?N (map ((*) c) xs) = c * ?N xs"
  proof -
    have "?N (map ((*) c) xs) =
          (\<Sum>p\<leftarrow>zip xs ws. c * (\<Sum>q\<leftarrow>zip xs ws. snd p * snd q * \<bar>fst p - fst q\<bar>))"
      by (simp add: zip_map1 case_prod_unfold comp_def inner)
    also have "\<dots> = c * (\<Sum>p\<leftarrow>zip xs ws. \<Sum>q\<leftarrow>zip xs ws. snd p * snd q * \<bar>fst p - fst q\<bar>)"
      by (rule sum_list_const_mult)
    also have "\<dots> = c * ?N xs"
      by (simp add: case_prod_unfold)
    finally show ?thesis .
  qed
  have den: "?D (map ((*) c) xs) = c * ?D xs"
  proof -
    have "?D (map ((*) c) xs) = (\<Sum>p\<leftarrow>zip xs ws. c * (snd p * fst p))"
      by (simp add: zip_map1 case_prod_unfold comp_def mult_ac)
    also have "\<dots> = c * (\<Sum>p\<leftarrow>zip xs ws. snd p * fst p)"
      by (rule sum_list_const_mult)
    also have "\<dots> = c * ?D xs"
      by (simp add: case_prod_unfold)
    finally show ?thesis .
  qed
  have "example_gini (map ((*) c) xs) ws =
        Inr (fdiv (Fin (?N (map ((*) c) xs))) (Fin (2 * sum_list ws * ?D (map ((*) c) xs))))"
    using True by (simp add: example_gini_def)
  also have "\<dots> = Inr (fdiv (Fin (c * ?N xs)) (Fin (c * (2 * sum_list ws * ?D xs))))"
    by (simp only: num den mult.left_commute [of _ c])
  also have "\<dots> = Inr (fdiv (Fin (?N xs)) (Fin (2 * sum_list ws * ?D xs)))"
    by (simp only: fdiv_scale [OF assms])
  also have "\<dots> = example_gini xs ws"
    using True by (simp add: example_gini_def)
  finally show ?thesis .
qed

lemma clamp_scale:
  assumes "c > 0"
  shows "map (\<lambda>x. max x 0) (map ((*) c) xs) = map ((*) c) (map (\<lambda>x. max x (0::real)) xs)"
  using assms by (simp add: max_def mult_le_0_iff zero_le_mult_iff not_le)

lemma metrics_gini_field:
  assumes "MetricsCalculator_calculate L baseline reformed reform_id reform_name year = Inr rows"
  shows "\<exists>g. calc_gini_change L baseline reformed year = Inr g
           \<and> map (\<lambda>row. map_of row ''gini_change'') rows = [Some g]"
  using assms
  by (auto simp: MetricsCalculator_calculate_def ebind_def split: sum.splits prod.splits)

text \<open>
  C8. Multiplying every baseline and every reform equivalised income by a constant
  \<open>c > 0\<close>, with the household counts and weights unchanged, leaves \<open>gini_change\<close>
  unchanged: the clamp at zero commutes with the scaling, and the Gini coefficient of the
  series library, a parameter of the model, is taken to be scale invariant (as the
  example library's is, by \<open>example_gini_scale\<close>). The value that
  \<open>MetricsCalculator.calculate\<close> reports under \<open>gini_change\<close> is the same for both
  inputs.
\<close>

theorem gini_change_scale_invariant:
  assumes "c > 0"
    and "\<forall>xs ws. ms_gini L (map ((*) c) xs) ws = ms_gini L xs ws"
    and "ms_values L (baseline' ''equiv_household_net_income'' year (Some ''household'')) =
         map ((*) c) (ms_values L (baseline ''equiv_household_net_income'' year (Some ''household'')))"
    and "ms_values L (reformed' ''equiv_household_net_income'' year (Some ''household'')) =
         map ((*) c) (ms_values L (reformed ''equiv_household_net_income'' year (Some ''household'')))"
    and "ms_values L (baseline' ''household_count_people'' year (Some ''household'')) =
         ms_values L (baseline ''household_count_people'' year (Some ''household''))"
    and "ms_values L (baseline' ''household_weight'' year (Some ''household'')) =
         ms_values L (baseline ''household_weight'' year (Some ''household''))"
  shows "calc_gini_change L baseline' reformed' year = calc_gini_change L baseline reformed year
       \<and> (\<forall>rows rows'.
            MetricsCalculator_calculate L baseline reformed reform_id reform_name year = Inr rows
            \<and> MetricsCalculator_calculate L baseline' reformed' reform_id reform_name year = Inr rows'
            \<longrightarrow> map (\<lambda>row. map_of row ''gini_change'') rows' =
                map (\<lambda>row. map_of row ''gini_change'') rows)"
proof -
  have eq: "calc_gini_change L baseline' reformed' year = calc_gini_change L baseline reformed year"
    unfolding calc_gini_change_def Let_def assms(3,4,5,6) clamp_scale [OF assms(1)]
    by (simp only: assms(2) [rule_format])
  show ?thesis
  proof (intro conjI allI impI)
    show "calc_gini_change L baseline' reformed' year = calc_gini_change L baseline reformed year"
      by (rule eq)
  next
    fix rows rows'
    assume run: "MetricsCalculator_calculate L baseline reformed reform_id reform_name year = Inr rows
            \<and> MetricsCalculator_calculate L baseline' reformed' reform_id reform_name year = Inr rows'"
    from run have r1: "MetricsCalculator_calculate L baseline reformed reform_id reform_name year = Inr rows"
      and r2: "MetricsCalculator_calculate L baseline' reformed' reform_id reform_name year = Inr rows'"
      by simp_all
    from metrics_gini_field [OF r1]
    obtain g where g: "calc_gini_change L baseline reformed year = Inr g"
      "map (\<lambda>row. map_of row ''gini_change'') rows = [Some g]" by auto
    from metrics_gini_field [OF r2]
    obtain g' where g': "calc_gini_change L baseline' reformed' year = Inr g'"
      "map (\<lambda>row. map_of row ''gini_change'') rows' = [Some g']" by auto
    from g(1) g'(1) eq have "g' = g" by simp
    with g(2) g'(2) show "map (\<lambda>row. map_of row ''gini_change'') rows' =
                map (\<lambda>row. map_of row ''gini_change'') rows" by simp
  qed
qed

lemma scaled_percent_affected:
  "calc_percent_affected example_lib (scale_equiv 2 example_baseline) (scale_equiv 2 example_reformed)
     2026 = Inr (PyFloat (Fin 100))"
  by (simp add: calc_percent_affected_def example_lib_def scale_equiv_def
        example_baseline_def example_reformed_def ebind_def np_binop_def np_mask_def Let_def)

lemma scaled_poverty_change:
  "calc_poverty_change example_lib (scale_equiv 2 example_baseline) (scale_equiv 2 example_reformed)
     2026 = Inr (PyFloat (Fin (- 25)), PyFloat (Fin (- 50)))"
  by (simp add: calc_poverty_change_def example_lib_def scale_equiv_def
        example_baseline_def example_reformed_def ebind_def np_mask_def Let_def)

text \<open>
  The example doubles the equivalised incomes, one of which is negative and clamped.
\<close>

theorem gini_change_scale_invariant_witness:
  "calc_gini_change example_lib example_baseline example_reformed 2026
     = Inr (PyFloat (Fin (- 15 / 299)))
   \<and> calc_gini_change example_lib (scale_equiv 2 example_baseline) (scale_equiv 2 example_reformed)
       2026 = Inr (PyFloat (Fin (- 15 / 299)))
   \<and> MetricsCalculator_calculate example_lib (scale_equiv 2 example_baseline)
        (scale_equiv 2 example_reformed) ''r'' ''R'' 2026 =
      Inr [[(''reform_id'', PyStr ''r''), (''reform_name'', PyStr ''R''), (''year'', PyInt 2026),
            (''people_affected'', PyFloat (Fin 100)),
            (''gini_change'', PyFloat (Fin (- 15 / 299))),
            (''poverty_change_pp'', PyFloat (Fin (- 25))),
            (''poverty_change_pct'', PyFloat (Fin (- 50)))]]"
proof -
  have c: "(2::real) > 0" by simp
  have gs: "\<forall>xs ws. ms_gini example_lib (map ((*) 2) xs) ws = ms_gini example_lib xs ws"
    by (simp add: example_lib_def example_gini_scale)
  have b: "ms_values example_lib
             (scale_equiv 2 example_baseline ''equiv_household_net_income'' 2026 (Some ''household'')) =
           map ((*) 2) (ms_values example_lib
             (example_baseline ''equiv_household_net_income'' 2026 (Some ''household'')))"
    and r: "ms_values example_lib
             (scale_equiv 2 example_reformed ''equiv_household_net_income'' 2026 (Some ''household'')) =
           map ((*) 2) (ms_values example_lib
             (example_reformed ''equiv_household_net_income'' 2026 (Some ''household'')))"
    and n: "ms_values example_lib
             (scale_equiv 2 example_baseline ''household_count_people'' 2026 (Some ''household'')) =
           ms_values example_lib (example_baseline ''household_count_people'' 2026 (Some ''household''))"
    and w: "ms_values example_lib
             (scale_equiv 2 example_baseline ''household_weight'' 2026 (Some ''household'')) =
           ms_values example_lib (example_baseline ''household_weight'' 2026 (Some ''household''))"
    by (simp_all add: scale_equiv_def example_lib_def)
  from gini_change_scale_invariant [where c = 2 and L = example_lib
         and baseline' = "scale_equiv 2 example_baseline" and baseline = example_baseline
         and reformed' = "scale_equiv 2 example_reformed" and reformed = example_reformed
         and year = 2026, OF c gs b r n w]
  have eq: "calc_gini_change example_lib (scale_equiv 2 example_baseline)
              (scale_equiv 2 example_reformed) 2026 =
            calc_gini_change example_lib example_baseline example_reformed 2026"
    by blast
  have g: "calc_gini_change example_lib example_baseline example_reformed 2026
             = Inr (PyFloat (Fin (- 15 / 299)))"
    by (rule example_gini_change)
  have m: "MetricsCalculator_calculate example_lib (scale_equiv 2 example_baseline)
        (scale_equiv 2 example_reformed) ''r'' ''R'' 2026 =
      Inr [[(''reform_id'', PyStr ''r''), (''reform_name'', PyStr ''R''), (''year'', PyInt 2026),
            (''people_affected'', PyFloat (Fin 100)),
            (''gini_change'', PyFloat (Fin (- 15 / 299))),
            (''poverty_change_pp'', PyFloat (Fin (- 25))),
            (''poverty_change_pct'', PyFloat (Fin (- 50)))]]"
    unfolding MetricsCalculator_calculate_def scaled_percent_affected scaled_poverty_change
      eq g by (simp add: ebind_def)
  from g eq m show ?thesis by simp
qed

subsection \<open>Demographic breakdown by constituency\<close>















subsection \<open>Missing constituency data\<close>

lemma calculate_constituency_absent:
  assumes "\<not> weights_path_exists fs \<or> \<not> constituencies_path_exists fs"
  shows "calculate_constituency self fs baseline reformed reform_id year = Inl FileNotFoundError"
  using assms by (auto simp: calculate_constituency_def)

lemma calculate_constituency_no_rows:
  "calculate_constituency
     (self\<lparr>constituency_calc := (\<lambda>baseline reformed reform_id year weights constituency_df. Inr []),
           demographic_calc := (\<lambda>baseline reformed reform_id year weights constituency_df. Inr [])\<rparr>)
     \<lparr>weights_path_exists = True, constituencies_path_exists = True,
      read_weights = Inr [], read_constituencies = Inr []\<rparr>
     baseline reformed reform_id year = Inr ([], [])"
  by (simp add: calculate_constituency_def ebind_def)

lemma process_years_absent:
  assumes "\<not> weights_path_exists fs \<or> \<not> constituencies_path_exists fs"
  shows "process_years self fs baseline reformed reform_id reform_name scenario years acc =
         process_years
           (self\<lparr>constituency_calc := (\<lambda>baseline reformed reform_id year weights constituency_df. Inr []),
                 demographic_calc := (\<lambda>baseline reformed reform_id year weights constituency_df. Inr [])\<rparr>)
           \<lparr>weights_path_exists = True, constituencies_path_exists = True,
            read_weights = Inr [], read_constituencies = Inr []\<rparr>
           baseline reformed reform_id reform_name scenario years acc"
proof (induction years arbitrary: acc)
  case Nil
  show ?case by simp
next
  case (Cons year years)
  show ?case
    by (simp add: calculate_constituency_absent [OF assms] calculate_constituency_no_rows
          ebind_def Let_def Cons.IH split: sum.splits prod.splits)
qed

lemma process_years_absent_geo:
  assumes "\<not> weights_path_exists fs \<or> \<not> constituencies_path_exists fs"
    and "process_years self fs baseline reformed reform_id reform_name scenario years acc = Inr acc'"
  shows "all_constituency acc' = all_constituency acc \<and> all_demographic acc' = all_demographic acc"
  using assms(2)
proof (induction years arbitrary: acc)
  case Nil
  then show ?case by simp
next
  case (Cons year years)
  from Cons.prems show ?case
    by (auto simp: calculate_constituency_absent [OF assms(1)] ebind_def Let_def
             split: sum.splits prod.splits dest!: Cons.IH)
qed

lemma process_years_success:
  assumes "\<not> weights_path_exists fs \<or> \<not> constituencies_path_exists fs"
    and "\<forall>year\<in>set years.
           distributional_calc self baseline reformed reform_id reform_name year
             = Inr (distributional year, decile_df year)
         \<and> winners_losers_calc self (decile_df year) reform_id reform_name year
             = Inr (winners_losers year)
         \<and> metrics_calc self baseline reformed reform_id reform_name year = Inr (metrics year)
         \<and> income_curve_calc self (r_to_baseline_scenario (reform self)) scenario
              reform_id reform_name year = Inr (income_curve year)
         \<and> household_scatter_calc self baseline reformed reform_id reform_name year
             = Inr (household_scatter year)"
  shows "process_years self fs baseline reformed reform_id reform_name scenario years acc =
         Inr (acc\<lparr>all_distributional := all_distributional acc @ concat (map distributional years),
                  all_winners_losers := all_winners_losers acc @ concat (map winners_losers years),
                  all_metrics := all_metrics acc @ concat (map metrics years),
                  all_income_curve := all_income_curve acc @ concat (map income_curve years),
                  all_household_scatter :=
                    all_household_scatter acc @ concat (map household_scatter years)\<rparr>)"
  using assms(2)
proof (induction years arbitrary: acc)
  case Nil
  show ?case by simp
next
  case (Cons year years)
  from Cons.prems have rest: "\<forall>year\<in>set years.
           distributional_calc self baseline reformed reform_id reform_name year
             = Inr (distributional year, decile_df year)
         \<and> winners_losers_calc self (decile_df year) reform_id reform_name year
             = Inr (winners_losers year)
         \<and> metrics_calc self baseline reformed reform_id reform_name year = Inr (metrics year)
         \<and> income_curve_calc self (r_to_baseline_scenario (reform self)) scenario
              reform_id reform_name year = Inr (income_curve year)
         \<and> household_scatter_calc self baseline reformed reform_id reform_name year
             = Inr (household_scatter year)"
    by simp
  from Cons.prems have now:
    "distributional_calc self baseline reformed reform_id reform_name year
       = Inr (distributional year, decile_df year)"
    "winners_losers_calc self (decile_df year) reform_id reform_name year
       = Inr (winners_losers year)"
    "metrics_calc self baseline reformed reform_id reform_name year = Inr (metrics year)"
    "income_curve_calc self (r_to_baseline_scenario (reform self)) scenario
       reform_id reform_name year = Inr (income_curve year)"
    "household_scatter_calc self baseline reformed reform_id reform_name year
       = Inr (household_scatter year)"
    by simp_all
  show ?case
    by (simp add: now calculate_constituency_absent [OF assms(1)] ebind_def Let_def
          Cons.IH [OF rest])
qed

text \<open>
  C9. Let the weights file or the constituency reference file be missing. If the
  budgetary calculator succeeds and, for every configured year, the distributional,
  winners/losers, metrics, income-curve and household-scatter calculators succeed, then
  \<open>process\<close> returns a result: it holds the budgetary rows, for each of the five other
  metrics the rows of every year in order, and empty \<open>constituency\<close> and
  \<open>demographic_constituency\<close> lists. In every case the run is the run that would be made
  with both files present and the two geography calculators returning no rows, so that an
  exception ends it only if one of the other calculators raises it, and whatever result
  is returned has empty geography lists.
\<close>

theorem missing_constituency_data_skips_geography:
  assumes "\<not> weights_path_exists fs \<or> \<not> constituencies_path_exists fs"
  shows "(budgetary_calc self baseline reformed (r_id (reform self)) (r_name (reform self))
            = Inr budgetary
          \<and> (\<forall>year\<in>set (config_years self).
                distributional_calc self baseline reformed (r_id (reform self))
                  (r_name (reform self)) year = Inr (distributional year, decile_df year)
              \<and> winners_losers_calc self (decile_df year) (r_id (reform self))
                  (r_name (reform self)) year = Inr (winners_losers year)
              \<and> metrics_calc self baseline reformed (r_id (reform self))
                  (r_name (reform self)) year = Inr (metrics year)
              \<and> income_curve_calc self (r_to_baseline_scenario (reform self))
                  (r_to_scenario (reform self)) (r_id (reform self))
                  (r_name (reform self)) year = Inr (income_curve year)
              \<and> household_scatter_calc self baseline reformed (r_id (reform self))
                  (r_name (reform self)) year = Inr (household_scatter year))
          \<longrightarrow>
          ReformProcessor_process self fs baseline reformed =
            Inr \<lparr>rr_reform_id = r_id (reform self),
                 rr_reform_name = r_name (reform self),
                 rr_budgetary_impact = budgetary,
                 rr_distributional_impact = concat (map distributional (config_years self)),
                 rr_winners_losers = concat (map winners_losers (config_years self)),
                 rr_metrics = concat (map metrics (config_years self)),
                 rr_income_curve = concat (map income_curve (config_years self)),
                 rr_household_scatter = concat (map household_scatter (config_years self)),
                 rr_constituency = [],
                 rr_demographic_constituency = []\<rparr>)
       \<and> ReformProcessor_process self fs baseline reformed =
         ReformProcessor_process
           (self\<lparr>constituency_calc := (\<lambda>baseline reformed reform_id year weights constituency_df. Inr []),
                 demographic_calc := (\<lambda>baseline reformed reform_id year weights constituency_df. Inr [])\<rparr>)
           \<lparr>weights_path_exists = True, constituencies_path_exists = True,
            read_weights = Inr [], read_constituencies = Inr []\<rparr>
           baseline reformed
       \<and> (\<forall>result. ReformProcessor_process self fs baseline reformed = Inr result \<longrightarrow>
             rr_constituency result = [] \<and> rr_demographic_constituency result = [])"
proof (intro conjI allI impI)
  assume ok: "budgetary_calc self baseline reformed (r_id (reform self)) (r_name (reform self))
            = Inr budgetary
          \<and> (\<forall>year\<in>set (config_years self).
                distributional_calc self baseline reformed (r_id (reform self))
                  (r_name (reform self)) year = Inr (distributional year, decile_df year)
              \<and> winners_losers_calc self (decile_df year) (r_id (reform self))
                  (r_name (reform self)) year = Inr (winners_losers year)
              \<and> metrics_calc self baseline reformed (r_id (reform self))
                  (r_name (reform self)) year = Inr (metrics year)
              \<and> income_curve_calc self (r_to_baseline_scenario (reform self))
                  (r_to_scenario (reform self)) (r_id (reform self))
                  (r_name (reform self)) year = Inr (income_curve year)
              \<and> household_scatter_calc self baseline reformed (r_id (reform self))
                  (r_name (reform self)) year = Inr (household_scatter year))"
  then have bud: "budgetary_calc self baseline reformed (r_id (reform self)) (r_name (reform self))
            = Inr budgetary"
    and yrs: "\<forall>year\<in>set (config_years self).
                distributional_calc self baseline reformed (r_id (reform self))
                  (r_name (reform self)) year = Inr (distributional year, decile_df year)
              \<and> winners_losers_calc self (decile_df year) (r_id (reform self))
                  (r_name (reform self)) year = Inr (winners_losers year)
              \<and> metrics_calc self baseline reformed (r_id (reform self))
                  (r_name (reform self)) year = Inr (metrics year)
              \<and> income_curve_calc self (r_to_baseline_scenario (reform self))
                  (r_to_scenario (reform self)) (r_id (reform self))
                  (r_name (reform self)) year = Inr (income_curve year)
              \<and> household_scatter_calc self baseline reformed (r_id (reform self))
                  (r_name (reform self)) year = Inr (household_scatter year)"
    by simp_all
  show "ReformProcessor_process self fs baseline reformed =
            Inr \<lparr>rr_reform_id = r_id (reform self),
                 rr_reform_name = r_name (reform self),
                 rr_budgetary_impact = budgetary,
                 rr_distributional_impact = concat (map distributional (config_years self)),
                 rr_winners_losers = concat (map winners_losers (config_years self)),
                 rr_metrics = concat (map metrics (config_years self)),
                 rr_income_curve = concat (map income_curve (config_years self)),
                 rr_household_scatter = concat (map household_scatter (config_years self)),
                 rr_constituency = [],
                 rr_demographic_constituency = []\<rparr>"
    unfolding ReformProcessor_process_def Let_def bud ebind_def sum.case
    by (simp add: process_years_success [OF assms yrs])
next
  show "ReformProcessor_process self fs baseline reformed =
         ReformProcessor_process
           (self\<lparr>constituency_calc := (\<lambda>baseline reformed reform_id year weights constituency_df. Inr []),
                 demographic_calc := (\<lambda>baseline reformed reform_id year weights constituency_df. Inr [])\<rparr>)
           \<lparr>weights_path_exists = True, constituencies_path_exists = True,
            read_weights = Inr [], read_constituencies = Inr []\<rparr>
           baseline reformed"
    unfolding ReformProcessor_process_def Let_def
    by (subst process_years_absent [OF assms]) simp
next
  fix result
  assume run: "ReformProcessor_process self fs baseline reformed = Inr result"
  then obtain acc' where acc: "process_years self fs baseline reformed (r_id (reform self))
        (r_name (reform self)) (r_to_scenario (reform self)) (config_years self)
        \<lparr>all_distributional = [], all_winners_losers = [], all_metrics = [],
         all_income_curve = [], all_household_scatter = [],
         all_constituency = [], all_demographic = []\<rparr> = Inr acc'"
    and res: "rr_constituency result = all_constituency acc'"
             "rr_demographic_constituency result = all_demographic acc'"
    by (auto simp: ReformProcessor_process_def ebind_def Let_def split: sum.splits)
  from process_years_absent_geo [OF assms acc] res
  show "rr_constituency result = []" and "rr_demographic_constituency result = []"
    by simp_all
qed

text \<open>
  With the weights file missing, the six other metric lists hold a row for each of the
  two years; the geography calculators, which would return a row each, are not called.
\<close>

theorem missing_constituency_data_skips_geography_witness:
  "\<not> weights_path_exists missing_weights_fs
   \<and> ReformProcessor_process example_processor missing_weights_fs example_baseline example_reformed =
     Inr \<lparr>rr_reform_id = ''r'', rr_reform_name = ''R'',
          rr_budgetary_impact =
            [[(''metric'', PyStr ''budgetary''), (''year'', PyInt 2026)],
             [(''metric'', PyStr ''budgetary''), (''year'', PyInt 2027)]],
          rr_distributional_impact =
            [[(''metric'', PyStr ''distributional''), (''year'', PyInt 2026)],
             [(''metric'', PyStr ''distributional''), (''year'', PyInt 2027)]],
          rr_winners_losers =
            [[(''metric'', PyStr ''winners_losers''), (''year'', PyInt 2026)],
             [(''metric'', PyStr ''winners_losers''), (''year'', PyInt 2027)]],
          rr_metrics =
            [[(''metric'', PyStr ''metrics''), (''year'', PyInt 2026)],
             [(''metric'', PyStr ''metrics''), (''year'', PyInt 2027)]],
          rr_income_curve =
            [[(''metric'', PyStr ''income_curve''), (''year'', PyInt 2026)],
             [(''metric'', PyStr ''income_curve''), (''year'', PyInt 2027)]],
          rr_household_scatter =
            [[(''metric'', PyStr ''household_scatter''), (''year'', PyInt 2026)],
             [(''metric'', PyStr ''household_scatter''), (''year'', PyInt 2027)]],
          rr_constituency = [], rr_demographic_constituency = []\<rparr>"
proof -
  have a: "\<not> weights_path_exists missing_weights_fs \<or> \<not> constituencies_path_exists missing_weights_fs"
    by (simp add: missing_weights_fs_def)
  have ok: "budgetary_calc example_processor example_baseline example_reformed
              (r_id (reform example_processor)) (r_name (reform example_processor))
            = Inr [tagged_row ''budgetary'' 2026, tagged_row ''budgetary'' 2027]
          \<and> (\<forall>year\<in>set (config_years example_processor).
                distributional_calc example_processor example_baseline example_reformed
                  (r_id (reform example_processor)) (r_name (reform example_processor)) year
                  = Inr ([tagged_row ''distributional'' year], [])
              \<and> winners_losers_calc example_processor [] (r_id (reform example_processor))
                  (r_name (reform example_processor)) year = Inr [tagged_row ''winners_losers'' year]
              \<and> metrics_calc example_processor example_baseline example_reformed
                  (r_id (reform example_processor)) (r_name (reform example_processor)) year
                  = Inr [tagged_row ''metrics'' year]
              \<and> income_curve_calc example_processor
                  (r_to_baseline_scenario (reform example_processor))
                  (r_to_scenario (reform example_processor)) (r_id (reform example_processor))
                  (r_name (reform example_processor)) year = Inr [tagged_row ''income_curve'' year]
              \<and> household_scatter_calc example_processor example_baseline example_reformed
                  (r_id (reform example_processor)) (r_name (reform example_processor)) year
                  = Inr [tagged_row ''household_scatter'' year])"
    by (simp add: example_processor_def)
  from missing_constituency_data_skips_geography [where self = example_processor and fs = missing_weights_fs
         and baseline = example_baseline and reformed = example_reformed
         and budgetary = "[tagged_row ''budgetary'' 2026, tagged_row ''budgetary'' 2027]"
         and distributional = "\<lambda>year. [tagged_row ''distributional'' year]"
         and decile_df = "\<lambda>year. []"
         and winners_losers = "\<lambda>year. [tagged_row ''winners_losers'' year]"
         and metrics = "\<lambda>year. [tagged_row ''metrics'' year]"
         and income_curve = "\<lambda>year. [tagged_row ''income_curve'' year]"
         and household_scatter = "\<lambda>year. [tagged_row ''household_scatter'' year]", OF a] ok
  have "ReformProcessor_process example_processor missing_weights_fs example_baseline example_reformed =
        Inr \<lparr>rr_reform_id = r_id (reform example_processor),
             rr_reform_name = r_name (reform example_processor),
             rr_budgetary_impact = [tagged_row ''budgetary'' 2026, tagged_row ''budgetary'' 2027],
             rr_distributional_impact =
               concat (map (\<lambda>year. [tagged_row ''distributional'' year]) (config_years example_processor)),
             rr_winners_losers =
               concat (map (\<lambda>year. [tagged_row ''winners_losers'' year]) (config_years example_processor)),
             rr_metrics =
               concat (map (\<lambda>year. [tagged_row ''metrics'' year]) (config_years example_processor)),
             rr_income_curve =
               concat (map (\<lambda>year. [tagged_row ''income_curve'' year]) (config_years example_processor)),
             rr_household_scatter =
               concat (map (\<lambda>year. [tagged_row ''household_scatter'' year]) (config_years example_processor)),
             rr_constituency = [],
             rr_demographic_constituency = []\<rparr>"
    by blast
  then show ?thesis
    by (simp add: example_processor_def tagged_row_def missing_weights_fs_def)
qed

end
